theory Spec2Isabelle
  imports Complex_Main
begin

section \<open>Shared conventions\<close>

text \<open>
  The client is single-threaded: every call of a store's \<^verbatim>\<open>set\<close> is one atomic step on
  the store's state, and an \<^verbatim>\<open>await\<close> is the only place where other steps can come
  in between. Each asynchronous operation is therefore given twice: as its phases (the
  part before the \<^verbatim>\<open>await\<close>, and one continuation per outcome, each reading the state
  current at that moment), and as the uninterrupted composition of the phases around a
  backend that is a parameter returning either a fault or a response.

  \<^verbatim>\<open>Date.now()\<close> and \<^verbatim>\<open>uuidv4()\<close> are inputs: every call site takes its reading
  as an argument. A call site inside the callback of a \<^verbatim>\<open>map\<close> over the crews is read
  once for every crew the callback rewrites, and crew identifiers are issued by the
  backend, so its reading is a function of the crew's position in the list. Conversation
  identifiers are drawn by \<^verbatim>\<open>uuidv4()\<close>, no two conversations share one, and the
  callbacks over the conversations take one reading. Clock readings are integers
  (milliseconds); other JavaScript numbers are rationals.

  A value \<open>None\<close> of an option type is \<^verbatim>\<open>undefined\<close> (or \<^verbatim>\<open>null\<close>, where the source
  uses it).
\<close>

datatype fault = TransportError nat string

fun findIndex :: "('a \<Rightarrow> bool) \<Rightarrow> 'a list \<Rightarrow> int" where
  "findIndex p [] = - 1"
| "findIndex p (x # xs) =
     (if p x then 0 else (let r = findIndex p xs in if r < 0 then - 1 else r + 1))"

fun map_index_from :: "nat \<Rightarrow> (nat \<Rightarrow> 'a \<Rightarrow> 'b) \<Rightarrow> 'a list \<Rightarrow> 'b list" where
  "map_index_from k f [] = []"
| "map_index_from k f (x # xs) = f k x # map_index_from (Suc k) f xs"

text \<open>\<^verbatim>\<open>xs.map((x, index) => f(index, x))\<close>\<close>

definition map_index :: "(nat \<Rightarrow> 'a \<Rightarrow> 'b) \<Rightarrow> 'a list \<Rightarrow> 'b list" where
  "map_index f xs = map_index_from 0 f xs"

text \<open>
  One key of an object spread over another, \<^verbatim>\<open>{ ...old, ...u }\<close>: \<open>None\<close> is a key
  that \<open>u\<close> does not have, \<open>Some v\<close> a key it has with the value \<open>v\<close>.
\<close>

definition patch_field :: "'a option \<Rightarrow> 'a \<Rightarrow> 'a" where
  "patch_field u old = (case u of None \<Rightarrow> old | Some v \<Rightarrow> v)"

section \<open>Agent and crew store\<close>

datatype process_type = Sequential | Hierarchical

datatype crew_status = Idle | Running | Completed | Failed

datatype task_status = TaskPending | TaskRunning | TaskCompleted | TaskFailed

record Agent =
  agent_id :: string
  agent_name :: string
  agent_role :: string
  agent_goal :: string
  agent_template :: string
  agent_model :: string
  agent_tools :: "string list"
  agent_createdAt :: int
  agent_updatedAt :: int

record Task =
  task_id :: string
  task_description :: string
  task_agentId :: string
  task_expectedOutput :: string
  task_status :: task_status
  task_result :: "string option"
  task_createdAt :: int
  task_updatedAt :: int

text \<open>
  A crew as the store holds it. The interface declares \<^verbatim>\<open>name\<close>, \<^verbatim>\<open>agents\<close>,
  \<^verbatim>\<open>tasks\<close>, \<^verbatim>\<open>processType\<close> and \<^verbatim>\<open>status\<close> as required, and createCrew
  sets them; updateCrew can overwrite each of them with \<^verbatim>\<open>undefined\<close>, so they are
  options here like the three fields the interface declares optional.
\<close>

record Crew =
  crew_id :: string
  crew_name :: "string option"
  crew_agents :: "string list option"
  crew_tasks :: "Task list option"
  crew_processType :: "process_type option"
  crew_status :: "crew_status option"
  crew_result :: "string option"
  crew_createdAt :: int
  crew_updatedAt :: int
  crew_completedAt :: "int option"
  crew_duration :: "rat option"

text \<open>\<^verbatim>\<open>Omit<Crew, 'id' | 'createdAt' | 'updatedAt' | 'status'>\<close>, the argument of createCrew.\<close>

record CrewData =
  cd_name :: string
  cd_agents :: "string list"
  cd_tasks :: "Task list"
  cd_processType :: process_type
  cd_result :: "string option"
  cd_completedAt :: "int option"
  cd_duration :: "rat option"

text \<open>
  \<^verbatim>\<open>Partial<Omit<Crew, 'id' | 'createdAt' | 'updatedAt'>>\<close>, the argument of updateCrew.
  For every key, \<open>None\<close> is an absent key and \<open>Some v\<close> a present one; a present key may
  carry \<^verbatim>\<open>undefined\<close> (\<open>Some None\<close>), which the type admits for each of them.
\<close>

record CrewUpdates =
  up_name :: "string option option"
  up_agents :: "string list option option"
  up_tasks :: "Task list option option"
  up_processType :: "process_type option option"
  up_status :: "crew_status option option"
  up_result :: "string option option"
  up_completedAt :: "int option option"
  up_duration :: "rat option option"

record AgentState =
  agents :: "Agent list"
  crews :: "Crew list"
  availableTemplates :: "string list"
  availableTools :: "string list"
  isLoading :: bool
  error :: "string option"

subsection \<open>Backend contract of the crew endpoints\<close>

record TaskRequest =
  tr_description :: string
  tr_agent_index :: int
  tr_expected_output :: string

record CrewRequest =
  rq_crew_name :: string
  rq_agent_templates :: "string list"
  rq_tasks :: "TaskRequest list"
  rq_process_type :: process_type

record CrewRunResponse =
  rr_crew_id :: string
  rr_result :: string
  rr_duration :: rat

record CrewTemplatesResponse =
  tp_agent_templates :: "string list"
  tp_tools :: "string list"

subsection \<open>createCrew\<close>

text \<open>\<^verbatim>\<open>{ ...crewData, id, status: 'idle', createdAt: Date.now(), updatedAt: Date.now() }\<close>\<close>

definition local_crew :: "string \<Rightarrow> int \<Rightarrow> int \<Rightarrow> CrewData \<Rightarrow> Crew" where
  "local_crew uuid t_created t_updated crewData =
     \<lparr> crew_id = uuid,
       crew_name = Some (cd_name crewData),
       crew_agents = Some (cd_agents crewData),
       crew_tasks = Some (cd_tasks crewData),
       crew_processType = Some (cd_processType crewData),
       crew_status = Some Idle,
       crew_result = cd_result crewData,
       crew_createdAt = t_created,
       crew_updatedAt = t_updated,
       crew_completedAt = cd_completedAt crewData,
       crew_duration = cd_duration crewData \<rparr>"

text \<open>\<^verbatim>\<open>agent?.template || 'researcher'\<close>: a missing agent and an empty tag both fall back.\<close>

definition template_of :: "Agent list \<Rightarrow> string \<Rightarrow> string" where
  "template_of as agentId =
     (case find (\<lambda>a. agent_id a = agentId) as of
        None \<Rightarrow> ''researcher''
      | Some a \<Rightarrow> (if agent_template a = [] then ''researcher'' else agent_template a))"

text \<open>
  The request is built from \<^verbatim>\<open>crew.name\<close>, \<^verbatim>\<open>crew.agents\<close>, \<^verbatim>\<open>crew.tasks\<close> and
  \<^verbatim>\<open>crew.processType\<close> of the local crew just built, which are the draft's.
\<close>

definition apiCrewData :: "Agent list \<Rightarrow> CrewData \<Rightarrow> CrewRequest" where
  "apiCrewData as crewData =
     \<lparr> rq_crew_name = cd_name crewData,
       rq_agent_templates = map (template_of as) (cd_agents crewData),
       rq_tasks = map (\<lambda>task.
           \<lparr> tr_description = task_description task,
             tr_agent_index = findIndex (\<lambda>agentId. agentId = task_agentId task) (cd_agents crewData),
             tr_expected_output = task_expectedOutput task \<rparr>) (cd_tasks crewData),
       rq_process_type = cd_processType crewData \<rparr>"

definition createCrew_begin :: "AgentState \<Rightarrow> AgentState" where
  "createCrew_begin s = s\<lparr> isLoading := True, error := None \<rparr>"

definition createCrew_fulfilled :: "Crew \<Rightarrow> string \<Rightarrow> AgentState \<Rightarrow> AgentState" where
  "createCrew_fulfilled crew apiCrewId s =
     s\<lparr> crews := crews s @ [crew\<lparr> crew_id := apiCrewId \<rparr>], isLoading := False \<rparr>"

definition createCrew_rejected :: "AgentState \<Rightarrow> AgentState" where
  "createCrew_rejected s = s\<lparr> error := Some ''Failed to create crew'', isLoading := False \<rparr>"

text \<open>
  The promise of createCrew: \<open>Inr\<close> the backend's identifier when it resolves, \<open>Inl\<close> the
  fault when it rejects (the catch block ends in \<^verbatim>\<open>throw error\<close>).
\<close>

definition createCrew ::
  "(CrewRequest \<Rightarrow> fault + string) \<Rightarrow> string \<Rightarrow> int \<Rightarrow> int \<Rightarrow> CrewData \<Rightarrow> AgentState
     \<Rightarrow> (fault + string) \<times> AgentState" where
  "createCrew api_create uuid t_created t_updated crewData s =
     (let s1 = createCrew_begin s;
          crew = local_crew uuid t_created t_updated crewData
      in case api_create (apiCrewData (agents s1) crewData) of
           Inr apiCrewId \<Rightarrow> (Inr apiCrewId, createCrew_fulfilled crew apiCrewId s1)
         | Inl e \<Rightarrow> (Inl e, createCrew_rejected s1))"

subsection \<open>updateCrew and deleteCrew\<close>

text \<open>\<^verbatim>\<open>{ ...crew, ...updates, updatedAt: Date.now() }\<close>\<close>

definition apply_updates :: "CrewUpdates \<Rightarrow> int \<Rightarrow> Crew \<Rightarrow> Crew" where
  "apply_updates updates now crew =
     crew\<lparr> crew_name := patch_field (up_name updates) (crew_name crew),
           crew_agents := patch_field (up_agents updates) (crew_agents crew),
           crew_tasks := patch_field (up_tasks updates) (crew_tasks crew),
           crew_processType := patch_field (up_processType updates) (crew_processType crew),
           crew_status := patch_field (up_status updates) (crew_status crew),
           crew_result := patch_field (up_result updates) (crew_result crew),
           crew_completedAt := patch_field (up_completedAt updates) (crew_completedAt crew),
           crew_duration := patch_field (up_duration updates) (crew_duration crew),
           crew_updatedAt := now \<rparr>"

definition updateCrew :: "string \<Rightarrow> CrewUpdates \<Rightarrow> (nat \<Rightarrow> int) \<Rightarrow> AgentState \<Rightarrow> AgentState" where
  "updateCrew i updates now s =
     s\<lparr> crews := map_index (\<lambda>k crew. if crew_id crew = i
                                       then apply_updates updates (now k) crew
                                       else crew) (crews s) \<rparr>"

definition deleteCrew :: "string \<Rightarrow> AgentState \<Rightarrow> AgentState" where
  "deleteCrew i s = s\<lparr> crews := filter (\<lambda>crew. crew_id crew \<noteq> i) (crews s) \<rparr>"

subsection \<open>runCrew\<close>

text \<open>
  The clock arguments of the three phases give, for the crew at each position, the
  reading its rewrite takes (the fulfilled continuation takes two, for \<^verbatim>\<open>completedAt\<close>
  and for \<^verbatim>\<open>updatedAt\<close>). Each phase tests the identifier only, on the crews the store
  holds when the phase runs.
\<close>

definition runCrew_begin :: "string \<Rightarrow> (nat \<Rightarrow> int) \<Rightarrow> AgentState \<Rightarrow> AgentState" where
  "runCrew_begin i t_run s =
     (let s1 = s\<lparr> isLoading := True, error := None \<rparr>
      in s1\<lparr> crews := map_index (\<lambda>k crew. if crew_id crew = i
                then crew\<lparr> crew_status := Some Running, crew_updatedAt := t_run k \<rparr>
                else crew) (crews s1) \<rparr>)"

definition runCrew_fulfilled ::
  "string \<Rightarrow> CrewRunResponse \<Rightarrow> (nat \<Rightarrow> int) \<Rightarrow> (nat \<Rightarrow> int) \<Rightarrow> AgentState \<Rightarrow> AgentState" where
  "runCrew_fulfilled i response t_completed t_updated s =
     s\<lparr> crews := map_index (\<lambda>k crew. if crew_id crew = i
              then crew\<lparr> crew_status := Some Completed,
                         crew_result := Some (rr_result response),
                         crew_completedAt := Some (t_completed k),
                         crew_duration := Some (rr_duration response),
                         crew_updatedAt := t_updated k \<rparr>
              else crew) (crews s),
        isLoading := False \<rparr>"

definition runCrew_rejected :: "string \<Rightarrow> (nat \<Rightarrow> int) \<Rightarrow> AgentState \<Rightarrow> AgentState" where
  "runCrew_rejected i t_failed s =
     s\<lparr> crews := map_index (\<lambda>k crew. if crew_id crew = i
              then crew\<lparr> crew_status := Some Failed, crew_updatedAt := t_failed k \<rparr>
              else crew) (crews s),
        error := Some ''Failed to run crew'',
        isLoading := False \<rparr>"

text \<open>
  A call of runCrew that no other operation of the store comes in between. Its promise
  always resolves: the catch block does not rethrow. \<open>t_run\<close> is the clock when the crew
  is marked running; \<open>t_end\<close> and \<open>t_end'\<close> are the readings taken by the continuation
  (the failure branch takes only the first).
\<close>

definition runCrew ::
  "(string \<Rightarrow> fault + CrewRunResponse) \<Rightarrow> string \<Rightarrow> (nat \<Rightarrow> int) \<Rightarrow> (nat \<Rightarrow> int) \<Rightarrow> (nat \<Rightarrow> int)
     \<Rightarrow> AgentState \<Rightarrow> (fault + unit) \<times> AgentState" where
  "runCrew api_run i t_run t_end t_end' s =
     (let s1 = runCrew_begin i t_run s
      in case api_run i of
           Inr response \<Rightarrow> (Inr (), runCrew_fulfilled i response t_end t_end' s1)
         | Inl e \<Rightarrow> (Inr (), runCrew_rejected i t_end s1))"

subsection \<open>fetchTemplates\<close>

definition fetchTemplates ::
  "(unit \<Rightarrow> fault + CrewTemplatesResponse) \<Rightarrow> AgentState \<Rightarrow> (fault + unit) \<times> AgentState" where
  "fetchTemplates api_templates s =
     (let s1 = s\<lparr> isLoading := True, error := None \<rparr>
      in case api_templates () of
           Inr response \<Rightarrow>
             (Inr (), s1\<lparr> availableTemplates := tp_agent_templates response,
                          availableTools := tp_tools response,
                          isLoading := False \<rparr>)
         | Inl e \<Rightarrow>
             (Inr (), s1\<lparr> error := Some ''Failed to fetch agent templates'', isLoading := False \<rparr>))"

section \<open>Conversation store\<close>

datatype role = User | Assistant | System

text \<open>
  A time value as \<^verbatim>\<open>getTime()\<close> returns it: a number of milliseconds, or \<^verbatim>\<open>NaN\<close>
  for an invalid date.
\<close>

datatype js_time = Time int | NaN

text \<open>
  \<^verbatim>\<open>metadata.timestamp\<close> as the backend's JSON delivers it (the interface types it
  \<^verbatim>\<open>any\<close>). \<open>TsNumber n\<close> is a number whose double has the value \<open>n\<close>; a JSON
  number too large for a double is read as \<^verbatim>\<open>Infinity\<close> and behaves as any \<open>n\<close> beyond
  the range of dates. For an array or an object, \<open>TsObject\<close> holds the string that the
  conversion to a primitive gives.
\<close>

datatype raw_timestamp =
    TsUndefined
  | TsNull
  | TsBool bool
  | TsNumber rat
  | TsString string
  | TsObject string

text \<open>
  \<^verbatim>\<open>Record<string, any>\<close>: the keys the client reads are fields, the rest is an
  association list.
\<close>

record Metadata =
  md_timestamp :: raw_timestamp
  md_model_used :: "string option"
  md_provider :: "string option"
  md_tokens_used :: "int option"
  md_cost :: "rat option"
  md_other :: "(string \<times> string) list"

record ChatMessage =
  msg_id :: string
  msg_role :: role
  msg_content :: string
  msg_timestamp :: js_time
  msg_model :: "string option"
  msg_provider :: "string option"
  msg_tokens :: "int option"
  msg_cost :: "rat option"
  msg_metadata :: "Metadata option"

record Conversation =
  conv_id :: string
  conv_title :: string
  conv_messages :: "ChatMessage list"
  conv_createdAt :: int
  conv_updatedAt :: int
  conv_systemPrompt :: "string option"

record ChatState =
  conversations :: "Conversation list"
  activeConversationId :: "string option"
  chat_isLoading :: bool
  chat_error :: "string option"

record ConversationMessage =
  hi_user :: string
  hi_assistant :: string
  hi_metadata :: Metadata

text \<open>
  A string or \<^verbatim>\<open>null\<close> in a boolean position (\<^verbatim>\<open>!activeConversationId\<close>,
  \<^verbatim>\<open>preferredProvider || undefined\<close>): \<^verbatim>\<open>null\<close> and the empty string are falsy.
\<close>

definition truthy :: "string option \<Rightarrow> string option" where
  "truthy a = (case a of None \<Rightarrow> None | Some i \<Rightarrow> (if i = [] then None else Some i))"

definition createConversation ::
  "string option \<Rightarrow> string option \<Rightarrow> string \<Rightarrow> int \<Rightarrow> int \<Rightarrow> ChatState \<Rightarrow> string \<times> ChatState" where
  "createConversation title systemPrompt uuid t_created t_updated s =
     (let conversation =
            \<lparr> conv_id = uuid,
              conv_title = (case title of None \<Rightarrow> ''New Conversation'' | Some t \<Rightarrow> t),
              conv_messages = [],
              conv_createdAt = t_created,
              conv_updatedAt = t_updated,
              conv_systemPrompt = systemPrompt \<rparr>
      in (uuid, s\<lparr> conversations := conversation # conversations s,
                   activeConversationId := Some uuid \<rparr>))"

definition setActiveConversation :: "string \<Rightarrow> ChatState \<Rightarrow> ChatState" where
  "setActiveConversation i s = s\<lparr> activeConversationId := Some i \<rparr>"

definition addMessage :: "ChatMessage \<Rightarrow> int \<Rightarrow> ChatState \<Rightarrow> ChatState" where
  "addMessage message now s =
     (case truthy (activeConversationId s) of
        None \<Rightarrow> s
      | Some active \<Rightarrow>
          s\<lparr> conversations := map (\<lambda>conv.
                if conv_id conv = active
                then conv\<lparr> conv_messages := conv_messages conv @ [message], conv_updatedAt := now \<rparr>
                else conv) (conversations s) \<rparr>)"

definition updateMessage :: "string \<Rightarrow> string \<Rightarrow> int \<Rightarrow> ChatState \<Rightarrow> ChatState" where
  "updateMessage i content now s =
     (case truthy (activeConversationId s) of
        None \<Rightarrow> s
      | Some active \<Rightarrow>
          s\<lparr> conversations := map (\<lambda>conv.
                if conv_id conv = active
                then conv\<lparr> conv_messages :=
                             map (\<lambda>msg. if msg_id msg = i then msg\<lparr> msg_content := content \<rparr> else msg)
                                 (conv_messages conv),
                           conv_updatedAt := now \<rparr>
                else conv) (conversations s) \<rparr>)"

definition deleteMessage :: "string \<Rightarrow> int \<Rightarrow> ChatState \<Rightarrow> ChatState" where
  "deleteMessage i now s =
     (case truthy (activeConversationId s) of
        None \<Rightarrow> s
      | Some active \<Rightarrow>
          s\<lparr> conversations := map (\<lambda>conv.
                if conv_id conv = active
                then conv\<lparr> conv_messages := filter (\<lambda>msg. msg_id msg \<noteq> i) (conv_messages conv),
                           conv_updatedAt := now \<rparr>
                else conv) (conversations s) \<rparr>)"

definition deleteConversation :: "string \<Rightarrow> ChatState \<Rightarrow> ChatState" where
  "deleteConversation i s =
     (let updatedConversations = filter (\<lambda>conv. conv_id conv \<noteq> i) (conversations s);
          newActiveId =
            (if activeConversationId s = Some i
             then (case updatedConversations of [] \<Rightarrow> None | conv # _ \<Rightarrow> Some (conv_id conv))
             else activeConversationId s)
      in s\<lparr> conversations := updatedConversations, activeConversationId := newActiveId \<rparr>)"

definition clearConversations :: "ChatState \<Rightarrow> ChatState" where
  "clearConversations s = s\<lparr> conversations := [], activeConversationId := None \<rparr>"

subsection \<open>loadConversationHistory\<close>

definition digit_char :: "nat \<Rightarrow> char" where
  "digit_char d = ''0123456789'' ! d"

function show_nat :: "nat \<Rightarrow> string" where
  "show_nat n = (if n < 10 then [digit_char n] else show_nat (n div 10) @ [digit_char (n mod 10)])"
  by pat_completeness auto
termination
  by (relation "measure (\<lambda>n. n)") auto

declare show_nat.simps [simp del]

definition show_int :: "int \<Rightarrow> string" where
  "show_int i = (if i < 0 then CHR ''-'' # show_nat (nat (- i)) else show_nat (nat i))"

text \<open>
  The values that are falsy in \<^verbatim>\<open>item.metadata.timestamp || Date.now()\<close>. The test
  is on the raw value, before any date is made of it.
\<close>

fun falsy_timestamp :: "raw_timestamp \<Rightarrow> bool" where
  "falsy_timestamp TsUndefined = True"
| "falsy_timestamp TsNull = True"
| "falsy_timestamp (TsBool b) = (\<not> b)"
| "falsy_timestamp (TsNumber n) = (n = 0)"
| "falsy_timestamp (TsString str) = (str = [])"
| "falsy_timestamp (TsObject str) = False"

text \<open>
  The time value of a number: \<^verbatim>\<open>NaN\<close> beyond 8.64e15 milliseconds on either side of
  the epoch, and otherwise the number with its fraction dropped.
\<close>

definition time_clip :: "rat \<Rightarrow> js_time" where
  "time_clip n =
     (if \<bar>n\<bar> > 8640000000000000 then NaN
      else Time (if 0 \<le> n then \<lfloor>n\<rfloor> else \<lceil>n\<rceil>))"

definition parsed :: "int option \<Rightarrow> js_time" where
  "parsed r = (case r of None \<Rightarrow> NaN | Some t \<Rightarrow> Time t)"

text \<open>
  \<^verbatim>\<open>new Date(v).getTime()\<close>. How a string is read as a date is the engine's business:
  \<open>parse\<close> is \<^verbatim>\<open>Date.parse\<close>, a parameter, with \<open>None\<close> for \<^verbatim>\<open>NaN\<close>.
\<close>

fun date_getTime :: "(string \<Rightarrow> int option) \<Rightarrow> raw_timestamp \<Rightarrow> js_time" where
  "date_getTime parse TsUndefined = NaN"
| "date_getTime parse TsNull = Time 0"
| "date_getTime parse (TsBool b) = Time (if b then 1 else 0)"
| "date_getTime parse (TsNumber n) = time_clip n"
| "date_getTime parse (TsString str) = parsed (parse str)"
| "date_getTime parse (TsObject str) = parsed (parse str)"

text \<open>
  \<^verbatim>\<open>new Date(item.metadata.timestamp || Date.now()).getTime()\<close>, with \<open>now\<close> the reading
  of the clock, which is a valid time.
\<close>

definition turn_time :: "(string \<Rightarrow> int option) \<Rightarrow> Metadata \<Rightarrow> int \<Rightarrow> js_time" where
  "turn_time parse md now =
     (if falsy_timestamp (md_timestamp md) then Time now
      else date_getTime parse (md_timestamp md))"

text \<open>\<^verbatim>\<open>t + 1\<close> on a time value: \<^verbatim>\<open>NaN + 1\<close> is \<^verbatim>\<open>NaN\<close>.\<close>

fun plus_one :: "js_time \<Rightarrow> js_time" where
  "plus_one (Time t) = Time (t + 1)"
| "plus_one NaN = NaN"

text \<open>
  The four \<^verbatim>\<open>Date.now()\<close> call sites of the conversion, each read once per turn: the
  argument is the turn's index. All user messages are built (by \<^verbatim>\<open>map\<close>) before the
  first assistant message is (by \<^verbatim>\<open>flatMap\<close>).
\<close>

record HistoryClock =
  now_user_id :: "nat \<Rightarrow> int"
  now_user_time :: "nat \<Rightarrow> int"
  now_assistant_id :: "nat \<Rightarrow> int"
  now_assistant_time :: "nat \<Rightarrow> int"

definition history_user ::
  "(string \<Rightarrow> int option) \<Rightarrow> HistoryClock \<Rightarrow> nat \<Rightarrow> ConversationMessage \<Rightarrow> ChatMessage" where
  "history_user parse clk index item =
     \<lparr> msg_id = ''history-'' @ show_nat index @ ''-'' @ show_int (now_user_id clk index),
       msg_role = User,
       msg_content = hi_user item,
       msg_timestamp = turn_time parse (hi_metadata item) (now_user_time clk index),
       msg_model = None,
       msg_provider = None,
       msg_tokens = None,
       msg_cost = None,
       msg_metadata = Some (hi_metadata item) \<rparr>"

definition history_assistant ::
  "(string \<Rightarrow> int option) \<Rightarrow> HistoryClock \<Rightarrow> nat \<Rightarrow> ConversationMessage \<Rightarrow> ChatMessage" where
  "history_assistant parse clk index item =
     \<lparr> msg_id = ''history-'' @ show_nat index @ ''-assistant-''
                  @ show_int (now_assistant_id clk index),
       msg_role = Assistant,
       msg_content = hi_assistant item,
       msg_timestamp = plus_one (turn_time parse (hi_metadata item) (now_assistant_time clk index)),
       msg_model = md_model_used (hi_metadata item),
       msg_provider = md_provider (hi_metadata item),
       msg_tokens = md_tokens_used (hi_metadata item),
       msg_cost = md_cost (hi_metadata item),
       msg_metadata = Some (hi_metadata item) \<rparr>"

definition history_messages ::
  "(string \<Rightarrow> int option) \<Rightarrow> HistoryClock \<Rightarrow> ConversationMessage list \<Rightarrow> ChatMessage list" where
  "history_messages parse clk history =
     concat (map_index (\<lambda>index userMsg.
               (let item = history ! index
                in [userMsg, history_assistant parse clk index item]))
             (map_index (history_user parse clk) history))"

definition loadHistory_begin :: "ChatState \<Rightarrow> ChatState" where
  "loadHistory_begin s = s\<lparr> chat_isLoading := True, chat_error := None \<rparr>"

definition loadHistory_fulfilled ::
  "string \<Rightarrow> (string \<Rightarrow> int option) \<Rightarrow> HistoryClock \<Rightarrow> ConversationMessage list \<Rightarrow> int
     \<Rightarrow> ChatState \<Rightarrow> ChatState" where
  "loadHistory_fulfilled conversationId parse clk history now s =
     (let messages = history_messages parse clk history
      in s\<lparr> conversations := map (\<lambda>conv.
                if conv_id conv = conversationId
                then conv\<lparr> conv_messages := messages, conv_updatedAt := now \<rparr>
                else conv) (conversations s),
            chat_isLoading := False \<rparr>)"

definition loadHistory_rejected :: "ChatState \<Rightarrow> ChatState" where
  "loadHistory_rejected s =
     s\<lparr> chat_error := Some ''Failed to load conversation history'', chat_isLoading := False \<rparr>"

definition loadConversationHistory ::
  "(string \<Rightarrow> fault + ConversationMessage list) \<Rightarrow> string \<Rightarrow> (string \<Rightarrow> int option)
     \<Rightarrow> HistoryClock \<Rightarrow> int \<Rightarrow> ChatState \<Rightarrow> (fault + unit) \<times> ChatState" where
  "loadConversationHistory api_history conversationId parse clk now s =
     (let s1 = loadHistory_begin s
      in case api_history conversationId of
           Inr history \<Rightarrow> (Inr (), loadHistory_fulfilled conversationId parse clk history now s1)
         | Inl e \<Rightarrow> (Inr (), loadHistory_rejected s1))"

section \<open>Send-turn handler of the chat view\<close>

record ModelSettings =
  temperature :: rat
  maxTokens :: int
  topP :: rat
  preferredProvider :: "string option"
  preferredModel :: "string option"

record ChatRequest =
  cr_prompt :: string
  cr_conversation_id :: string
  cr_system_prompt :: "string option"
  cr_max_tokens :: int
  cr_temperature :: rat
  cr_top_p :: rat
  cr_force_provider :: "string option"

record ChatResponse =
  resp_text :: string
  resp_model_used :: string
  resp_provider :: string
  resp_tokens_used :: int
  resp_cost :: rat
  resp_latency_ms :: int
  resp_metadata :: "Metadata option"

text \<open>The store together with the view's own \<^verbatim>\<open>isLoading\<close> flag.\<close>

record ChatView =
  store :: ChatState
  view_isLoading :: bool

text \<open>The identifiers and clock readings one submission consumes, in the order taken.\<close>

record SendReadings =
  user_uuid :: string
  user_now :: int
  user_added :: int
  assistant_uuid :: string
  assistant_now :: int
  assistant_added :: int
  response_now :: int
  updated_now :: int

definition failure_notice :: string where
  "failure_notice = ''Sorry, there was an error processing your request. Please try again.''"

definition userMessage :: "SendReadings \<Rightarrow> string \<Rightarrow> ChatMessage" where
  "userMessage rd content =
     \<lparr> msg_id = user_uuid rd, msg_role = User, msg_content = content,
       msg_timestamp = Time (user_now rd), msg_model = None, msg_provider = None,
       msg_tokens = None, msg_cost = None, msg_metadata = None \<rparr>"

definition assistantMessage :: "SendReadings \<Rightarrow> ChatMessage" where
  "assistantMessage rd =
     \<lparr> msg_id = assistant_uuid rd, msg_role = Assistant, msg_content = ''...'',
       msg_timestamp = Time (assistant_now rd), msg_model = None, msg_provider = None,
       msg_tokens = None, msg_cost = None, msg_metadata = None \<rparr>"

text \<open>
  The message the handler builds from the response. The handler does not hand it to the
  store: the call that follows passes the identifier and the text only.
\<close>

definition updatedAssistantMessage :: "SendReadings \<Rightarrow> ChatResponse \<Rightarrow> ChatMessage" where
  "updatedAssistantMessage rd response =
     \<lparr> msg_id = assistant_uuid rd, msg_role = Assistant, msg_content = resp_text response,
       msg_timestamp = Time (response_now rd), msg_model = Some (resp_model_used response),
       msg_provider = Some (resp_provider response), msg_tokens = Some (resp_tokens_used response),
       msg_cost = Some (resp_cost response), msg_metadata = resp_metadata response \<rparr>"

definition chat_request :: "ModelSettings \<Rightarrow> ChatState \<Rightarrow> string \<Rightarrow> string \<Rightarrow> ChatRequest" where
  "chat_request modelSettings s active content =
     \<lparr> cr_prompt = content,
       cr_conversation_id = active,
       cr_system_prompt =
         (case find (\<lambda>conv. Some (conv_id conv) = activeConversationId s) (conversations s) of
            None \<Rightarrow> None
          | Some activeConversation \<Rightarrow> conv_systemPrompt activeConversation),
       cr_max_tokens = maxTokens modelSettings,
       cr_temperature = temperature modelSettings,
       cr_top_p = topP modelSettings,
       cr_force_provider = truthy (preferredProvider modelSettings) \<rparr>"

definition send_begin :: "SendReadings \<Rightarrow> string \<Rightarrow> ChatView \<Rightarrow> ChatView" where
  "send_begin rd content v =
     v\<lparr> store := addMessage (assistantMessage rd) (assistant_added rd)
                    (addMessage (userMessage rd content) (user_added rd) (store v)),
        view_isLoading := True \<rparr>"

definition send_fulfilled :: "SendReadings \<Rightarrow> ChatResponse \<Rightarrow> ChatView \<Rightarrow> ChatView" where
  "send_fulfilled rd response v =
     (let unused = updatedAssistantMessage rd response
      in v\<lparr> store := updateMessage (assistant_uuid rd) (resp_text response) (updated_now rd) (store v),
            view_isLoading := False \<rparr>)"

definition send_rejected :: "SendReadings \<Rightarrow> ChatView \<Rightarrow> ChatView" where
  "send_rejected rd v =
     v\<lparr> store := updateMessage (assistant_uuid rd) failure_notice (updated_now rd) (store v),
        view_isLoading := False \<rparr>"

text \<open>
  The view renders from the store, so the \<^verbatim>\<open>activeConversationId\<close> the handler closes
  over is the store's at the time of the submission.
\<close>

definition handleSendMessage ::
  "(ChatRequest \<Rightarrow> fault + ChatResponse) \<Rightarrow> ModelSettings \<Rightarrow> SendReadings \<Rightarrow> string \<Rightarrow> ChatView
     \<Rightarrow> ChatView" where
  "handleSendMessage api_chat modelSettings rd content v =
     (case truthy (activeConversationId (store v)) of
        None \<Rightarrow> v
      | Some active \<Rightarrow>
          (let v1 = send_begin rd content v
           in case api_chat (chat_request modelSettings (store v) active content) of
                Inr response \<Rightarrow> send_fulfilled rd response v1
              | Inl e \<Rightarrow> send_rejected rd v1))"

section \<open>Push-channel client\<close>

record WsChatRequest =
  ws_prompt :: string
  ws_conversation_id :: "string option"
  ws_system_prompt :: "string option"
  ws_max_tokens :: "int option"
  ws_temperature :: "rat option"
  ws_top_p :: "rat option"
  ws_task_type :: "string option"
  ws_user_id :: "string option"

text \<open>
  The object a \<^verbatim>\<open>message\<close> event delivers. The interface declares the fields up to
  \<open>ws_error\<close>; \<open>ws_message_id\<close> is the correlation identifier a backend may echo on the
  wire, which the interface does not declare.
\<close>

record WsChatResponse =
  ws_text :: string
  ws_model_used :: string
  ws_provider :: string
  ws_tokens_used :: int
  ws_cost :: rat
  ws_latency_ms :: int
  ws_metadata :: "Metadata option"
  ws_error :: "string option"
  ws_message_id :: "string option"

text \<open>
  \<open>socket\<close> is \<open>None\<close> for \<^verbatim>\<open>null\<close>, and otherwise holds the frames emitted on that socket
  so far. \<open>messageHandlers\<close> is the \<^verbatim>\<open>Map\<close> in insertion order; \<open>'h\<close> names a callback.
  Calling a callback is an effect: the operations return the calls they make, in order.
\<close>

record 'h WebSocketClient =
  socket :: "(WsChatRequest \<times> string) list option"
  clientId :: string
  messageHandlers :: "(string \<times> 'h) list"

fun map_set :: "'k \<Rightarrow> 'v \<Rightarrow> ('k \<times> 'v) list \<Rightarrow> ('k \<times> 'v) list" where
  "map_set k v [] = [(k, v)]"
| "map_set k v ((k', v') # m) = (if k' = k then (k, v) # m else (k', v') # map_set k v m)"

definition connect :: "'h WebSocketClient \<Rightarrow> 'h WebSocketClient" where
  "connect c = (case socket c of Some frames \<Rightarrow> c | None \<Rightarrow> c\<lparr> socket := Some [] \<rparr>)"

definition disconnect :: "'h WebSocketClient \<Rightarrow> 'h WebSocketClient" where
  "disconnect c = (case socket c of None \<Rightarrow> c | Some frames \<Rightarrow> c\<lparr> socket := None \<rparr>)"

definition not_connected :: WsChatResponse where
  "not_connected =
     \<lparr> ws_text = ''Error: WebSocket not connected'', ws_model_used = ''none'',
       ws_provider = ''none'', ws_tokens_used = 0, ws_cost = 0, ws_latency_ms = 0,
       ws_metadata = None, ws_error = Some ''WebSocket not connected'',
       ws_message_id = None \<rparr>"

definition sendMessage ::
  "WsChatRequest \<Rightarrow> 'h \<Rightarrow> string \<Rightarrow> 'h WebSocketClient
     \<Rightarrow> 'h WebSocketClient \<times> ('h \<times> WsChatResponse) list" where
  "sendMessage request onResponse messageId c =
     (let c1 = (if socket c = None then connect c else c);
          c2 = c1\<lparr> messageHandlers := map_set messageId onResponse (messageHandlers c1) \<rparr>
      in case socket c2 of
           Some frames \<Rightarrow> (c2\<lparr> socket := Some (frames @ [(request, messageId)]) \<rparr>, [])
         | None \<Rightarrow> (c2, [(onResponse, not_connected)]))"

definition handleMessage :: "'h WebSocketClient \<Rightarrow> WsChatResponse \<Rightarrow> ('h \<times> WsChatResponse) list" where
  "handleMessage c response = map (\<lambda>(messageId, handler). (handler, response)) (messageHandlers c)"

text \<open>
  What happens to a client over time: calls of its public methods, and \<^verbatim>\<open>message\<close>
  events, which reach \<open>handleMessage\<close> through the listener that \<open>connect\<close> installs on the
  socket. The second component collects every callback call made so far.
\<close>

datatype 'h gateway_event =
    Connect
  | Disconnect
  | Send WsChatRequest 'h string
  | Incoming WsChatResponse

fun gateway_step ::
  "'h gateway_event \<Rightarrow> 'h WebSocketClient \<times> ('h \<times> WsChatResponse) list
     \<Rightarrow> 'h WebSocketClient \<times> ('h \<times> WsChatResponse) list" where
  "gateway_step Connect (c, calls) = (connect c, calls)"
| "gateway_step Disconnect (c, calls) = (disconnect c, calls)"
| "gateway_step (Send request onResponse messageId) (c, calls) =
     (let (c', made) = sendMessage request onResponse messageId c in (c', calls @ made))"
| "gateway_step (Incoming response) (c, calls) =
     (case socket c of
        None \<Rightarrow> (c, calls)
      | Some frames \<Rightarrow> (c, calls @ handleMessage c response))"

definition gateway_run ::
  "'h gateway_event list \<Rightarrow> 'h WebSocketClient \<times> ('h \<times> WsChatResponse) list
     \<Rightarrow> 'h WebSocketClient \<times> ('h \<times> WsChatResponse) list" where
  "gateway_run events st = fold gateway_step events st"

section \<open>The spec's wording, for comparison\<close>

text \<open>
  The transitions the spec lists for a crew's status: idle to running, running to
  completed or failed, and completed or failed back to running.
\<close>

definition status_transition :: "crew_status option \<Rightarrow> crew_status option \<Rightarrow> bool" where
  "status_transition before after =
     (case (before, after) of
        (Some Idle, Some Running) \<Rightarrow> True
      | (Some Running, Some Completed) \<Rightarrow> True
      | (Some Running, Some Failed) \<Rightarrow> True
      | (Some Completed, Some Running) \<Rightarrow> True
      | (Some Failed, Some Running) \<Rightarrow> True
      | _ \<Rightarrow> False)"

text \<open>
  The successor the spec names after a deletion: a remaining conversation that was
  updated no earlier than any other.
\<close>

definition most_recently_updated :: "Conversation list \<Rightarrow> string \<Rightarrow> bool" where
  "most_recently_updated cs i =
     (\<exists>c \<in> set cs. conv_id c = i \<and> (\<forall>d \<in> set cs. conv_updatedAt d \<le> conv_updatedAt c))"

text \<open>
  Dispatch as the spec words it: to the handler registered under the message's
  identifier, and to every registered handler only when the message carries no
  identifier or none that is registered.
\<close>

definition spec_dispatch :: "'h WebSocketClient \<Rightarrow> WsChatResponse \<Rightarrow> ('h \<times> WsChatResponse) list" where
  "spec_dispatch c response =
     (case ws_message_id response of
        None \<Rightarrow> map (\<lambda>(messageId, handler). (handler, response)) (messageHandlers c)
      | Some m \<Rightarrow>
          (case map_of (messageHandlers c) m of
             Some handler \<Rightarrow> [(handler, response)]
           | None \<Rightarrow> map (\<lambda>(messageId, handler). (handler, response)) (messageHandlers c)))"

section \<open>Example states\<close>

subsection \<open>Backends\<close>

text \<open>A backend that is unreachable, whatever it is asked.\<close>

definition backend_down :: "'a \<Rightarrow> fault + 'b" where
  "backend_down request = Inl (TransportError 503 ''unavailable'')"

definition templates_down :: "unit \<Rightarrow> fault + CrewTemplatesResponse" where
  "templates_down u = Inl (TransportError 503 ''unavailable'')"

text \<open>A backend that issues the identifier \<open>abc123\<close> for every crew it is asked to create.\<close>

definition backend_abc123 :: "CrewRequest \<Rightarrow> fault + string" where
  "backend_abc123 request = Inr ''abc123''"

definition report :: "string \<Rightarrow> CrewRunResponse" where
  "report crewId = \<lparr> rr_crew_id = crewId, rr_result = ''report'', rr_duration = 12 \<rparr>"

definition backend_done :: "string \<Rightarrow> fault + CrewRunResponse" where
  "backend_done crewId = Inr (report crewId)"

subsection \<open>Agent and crew store\<close>


definition example_crew :: Crew where
  "example_crew =
     \<lparr> crew_id = ''abc123'', crew_name = Some ''research'', crew_agents = Some [''a1'', ''a2''],
       crew_tasks = Some [], crew_processType = Some Sequential, crew_status = Some Idle,
       crew_result = None, crew_createdAt = 1, crew_updatedAt = 1,
       crew_completedAt = None, crew_duration = None \<rparr>"

definition example_store :: AgentState where
  "example_store =
     \<lparr> agents = [], crews = [example_crew], availableTemplates = [], availableTools = [],
       isLoading = False, error = None \<rparr>"

definition example_task :: Task where
  "example_task =
     \<lparr> task_id = '''', task_description = ''survey'', task_agentId = ''a2'',
       task_expectedOutput = ''Comprehensive analysis'', task_status = TaskPending,
       task_result = None, task_createdAt = 0, task_updatedAt = 0 \<rparr>"

definition example_draft :: CrewData where
  "example_draft =
     \<lparr> cd_name = ''research'', cd_agents = [''a1'', ''a2''], cd_tasks = [example_task],
       cd_processType = Sequential, cd_result = None, cd_completedAt = None,
       cd_duration = None \<rparr>"

text \<open>Clocks that read the same for every crew of the list.\<close>

definition at_10 :: "nat \<Rightarrow> int" where
  "at_10 k = 10"

definition at_20 :: "nat \<Rightarrow> int" where
  "at_20 k = 20"

definition at_30 :: "nat \<Rightarrow> int" where
  "at_30 k = 30"

definition mark_completed :: CrewUpdates where
  "mark_completed =
     \<lparr> up_name = None, up_agents = None, up_tasks = None, up_processType = None,
       up_status = Some (Some Completed), up_result = None, up_completedAt = None,
       up_duration = None \<rparr>"

subsection \<open>Conversation store\<close>

definition empty_chat :: ChatState where
  "empty_chat =
     \<lparr> conversations = [], activeConversationId = None, chat_isLoading = False,
       chat_error = None \<rparr>"

definition hello :: ChatMessage where
  "hello = \<lparr> msg_id = ''m1'', msg_role = User, msg_content = ''hello'', msg_timestamp = Time 3,
       msg_model = None, msg_provider = None, msg_tokens = None, msg_cost = None,
       msg_metadata = None \<rparr>"

text \<open>
  Three conversations created at times 1, 2 and 4; the oldest one receives a message at
  time 3, after the second was created. The newest is the active one.
\<close>

definition busy_chat :: ChatState where
  "busy_chat =
     snd (createConversation (Some ''third'') None ''c3'' 4 4
       (addMessage hello 3
         (setActiveConversation ''c1''
           (snd (createConversation (Some ''second'') None ''c2'' 2 2
             (snd (createConversation (Some ''first'') None ''c1'' 1 1 empty_chat)))))))"

definition untimed_turn :: ConversationMessage where
  "untimed_turn =
     \<lparr> hi_user = ''a'', hi_assistant = ''b'',
       hi_metadata = \<lparr> md_timestamp = TsUndefined, md_model_used = None, md_provider = None,
                       md_tokens_used = None, md_cost = None, md_other = [] \<rparr> \<rparr>"

definition timed_turn :: ConversationMessage where
  "timed_turn =
     \<lparr> hi_user = ''c'', hi_assistant = ''d'',
       hi_metadata = \<lparr> md_timestamp = TsNumber 500, md_model_used = Some ''m'', md_provider = None,
                       md_tokens_used = Some 7, md_cost = None, md_other = [] \<rparr> \<rparr>"

text \<open>A clock that reads 1000 while the user messages are built and 1001 afterwards.\<close>

definition ticking_clock :: HistoryClock where
  "ticking_clock =
     \<lparr> now_user_id = (\<lambda>index. 1000), now_user_time = (\<lambda>index. 1000),
       now_assistant_id = (\<lambda>index. 1001), now_assistant_time = (\<lambda>index. 1001) \<rparr>"

text \<open>Turns stamped with the epoch as a date string, and with a string that is no date.\<close>

definition epoch_turn :: ConversationMessage where
  "epoch_turn =
     \<lparr> hi_user = ''e'', hi_assistant = ''f'',
       hi_metadata = \<lparr> md_timestamp = TsString ''1970-01-01T00:00:00.000Z'', md_model_used = None,
                       md_provider = None, md_tokens_used = None, md_cost = None,
                       md_other = [] \<rparr> \<rparr>"

definition undated_turn :: ConversationMessage where
  "undated_turn =
     \<lparr> hi_user = ''g'', hi_assistant = ''h'',
       hi_metadata = \<lparr> md_timestamp = TsString ''soon'', md_model_used = None,
                       md_provider = None, md_tokens_used = None, md_cost = None,
                       md_other = [] \<rparr> \<rparr>"

text \<open>A date parser that knows the epoch's date string and takes nothing else for a date.\<close>

definition epoch_parser :: "string \<Rightarrow> int option" where
  "epoch_parser str = (if str = ''1970-01-01T00:00:00.000Z'' then Some 0 else None)"

text \<open>A backend that remembers four turns, the first without a timestamp.\<close>

definition history_backend :: "string \<Rightarrow> fault + ConversationMessage list" where
  "history_backend conversationId = Inr [untimed_turn, timed_turn, epoch_turn, undated_turn]"

subsection \<open>Chat view\<close>

definition default_settings :: ModelSettings where
  "default_settings =
     \<lparr> temperature = 7 / 10, maxTokens = 1024, topP = 9 / 10, preferredProvider = None,
       preferredModel = None \<rparr>"

text \<open>A fresh session: the view has created its first conversation and nothing else.\<close>

definition fresh_view :: ChatView where
  "fresh_view =
     \<lparr> store = setActiveConversation ''c1''
                 (snd (createConversation (Some ''New Conversation'') None ''c1'' 1 1 empty_chat)),
       view_isLoading = False \<rparr>"

definition example_readings :: SendReadings where
  "example_readings =
     \<lparr> user_uuid = ''u1'', user_now = 2, user_added = 2, assistant_uuid = ''a1'',
       assistant_now = 2, assistant_added = 2, response_now = 5, updated_now = 5 \<rparr>"

definition hi_there :: ChatResponse where
  "hi_there =
     \<lparr> resp_text = ''hi there'', resp_model_used = ''qwen2.5-72b'', resp_provider = ''local'',
       resp_tokens_used = 12, resp_cost = 0, resp_latency_ms = 40, resp_metadata = None \<rparr>"

definition chat_backend :: "ChatRequest \<Rightarrow> fault + ChatResponse" where
  "chat_backend request = Inr hi_there"

subsection \<open>Push-channel client\<close>

definition example_request :: WsChatRequest where
  "example_request =
     \<lparr> ws_prompt = ''hello'', ws_conversation_id = None, ws_system_prompt = None,
       ws_max_tokens = None, ws_temperature = None, ws_top_p = None, ws_task_type = None,
       ws_user_id = None \<rparr>"

definition idle_client :: "string WebSocketClient" where
  "idle_client = \<lparr> socket = None, clientId = ''client-1'', messageHandlers = [] \<rparr>"

text \<open>Two requests are outstanding, registered under \<open>m1\<close> and \<open>m2\<close>.\<close>

definition two_pending :: "string WebSocketClient" where
  "two_pending =
     fst (sendMessage example_request ''onSecond'' ''m2''
       (fst (sendMessage example_request ''onFirst'' ''m1'' idle_client)))"

definition reply :: "string option \<Rightarrow> string \<Rightarrow> WsChatResponse" where
  "reply messageId content =
     \<lparr> ws_text = content, ws_model_used = ''m'', ws_provider = ''p'', ws_tokens_used = 2,
       ws_cost = 0, ws_latency_ms = 5, ws_metadata = None, ws_error = None,
       ws_message_id = messageId \<rparr>"

section \<open>Auxiliary facts about lists and association lists\<close>

lemma map_if_twice:
  "(\<And>x. p (f x) = p x) \<Longrightarrow>
   map (\<lambda>x. if p x then g x else x) (map (\<lambda>x. if p x then f x else x) xs)
     = map (\<lambda>x. if p x then g (f x) else x) xs"
  by (induction xs) simp_all

lemma map_if_none:
  "(\<And>x. x \<in> set xs \<Longrightarrow> \<not> p x) \<Longrightarrow> map (\<lambda>x. if p x then f x else x) xs = xs"
  by (induction xs) simp_all

lemma filter_none:
  "(\<And>x. x \<in> set xs \<Longrightarrow> p x) \<Longrightarrow> filter p xs = xs"
  by (induction xs) simp_all

lemma first_of_filter:
  "(case filter p xs of [] \<Rightarrow> None | x # rest \<Rightarrow> Some (f x)) = map_option f (find p xs)"
  by (induction xs) simp_all

lemma map_index_from_length: "length (map_index_from k f xs) = length xs"
  by (induction xs arbitrary: k) simp_all

lemma map_index_from_nth:
  "j < length xs \<Longrightarrow> map_index_from k f xs ! j = f (k + j) (xs ! j)"
proof (induction xs arbitrary: k j)
  case Nil
  then show ?case by simp
next
  case (Cons x xs)
  show ?case
  proof (cases j)
    case 0
    then show ?thesis by simp
  next
    case (Suc j')
    with Cons.prems have "j' < length xs" by simp
    from Cons.IH [OF this, of "Suc k"] Suc show ?thesis by simp
  qed
qed

lemma pairs_length:
  "length (concat (map_index_from k (\<lambda>i x. [a i x, b i x]) xs)) = 2 * length xs"
  by (induction xs arbitrary: k) simp_all

lemma pairs_nth:
  "j < length xs \<Longrightarrow>
     concat (map_index_from k (\<lambda>i x. [a i x, b i x]) xs) ! (2 * j) = a (k + j) (xs ! j)
   \<and> concat (map_index_from k (\<lambda>i x. [a i x, b i x]) xs) ! (2 * j + 1) = b (k + j) (xs ! j)"
proof (induction xs arbitrary: k j)
  case Nil
  then show ?case by simp
next
  case (Cons x xs)
  show ?case
  proof (cases j)
    case 0
    then show ?thesis by simp
  next
    case (Suc j')
    with Cons.prems have "j' < length xs" by simp
    from Cons.IH [OF this, of "Suc k"] Suc show ?thesis by simp
  qed
qed


lemma map_set_keeps_new: "(k, v) \<in> set (map_set k v m)"
  by (induction m) auto

lemma map_set_keeps_others: "(k', v') \<in> set m \<Longrightarrow> k' \<noteq> k \<Longrightarrow> (k', v') \<in> set (map_set k v m)"
  by (induction m) auto

lemma map_set_keys: "fst ` set (map_set k v m) = insert k (fst ` set m)"
  by (induction k v m rule: map_set.induct) (simp_all add: insert_commute)

lemma map_index_from_if_twice:
  "(\<And>k x. p (f k x) = p x) \<Longrightarrow> (\<And>k x. g k (f k x) = h k x) \<Longrightarrow>
   map_index_from j (\<lambda>k x. if p x then g k x else x)
       (map_index_from j (\<lambda>k x. if p x then f k x else x) xs)
     = map_index_from j (\<lambda>k x. if p x then h k x else x) xs"
  by (induction xs arbitrary: j) simp_all

lemma map_map_index_from_if:
  "(\<And>k x. h (f k x) = H x) \<Longrightarrow>
   map h (map_index_from j (\<lambda>k x. if p x then f k x else x) xs)
     = map (\<lambda>x. if p x then H x else h x) xs"
  by (induction xs arbitrary: j) simp_all

lemma map_map_index_from_frame:
  "(\<And>k x. h (f k x) = h x) \<Longrightarrow>
   map h (map_index_from j (\<lambda>k x. if p x then f k x else x) xs) = map h xs"
  by (induction xs arbitrary: j) simp_all

section \<open>Properties of the agent and crew store\<close>

subsection \<open>The steps of runCrew, on any state\<close>

lemma runCrew_begin_crews:
  "crews (runCrew_begin i t_run s) =
     map_index (\<lambda>k crew. if crew_id crew = i
                  then crew\<lparr> crew_status := Some Running, crew_updatedAt := t_run k \<rparr>
                  else crew) (crews s)"
  by (simp add: runCrew_begin_def)

lemma runCrew_begin_statuses:
  "map crew_status (crews (runCrew_begin i t_run s))
     = map (\<lambda>crew. if crew_id crew = i then Some Running else crew_status crew) (crews s)"
  unfolding runCrew_begin_crews map_index_def by (rule map_map_index_from_if) simp

lemma runCrew_fulfilled_statuses:
  "map crew_status (crews (runCrew_fulfilled i response t_completed t_updated s))
     = map (\<lambda>crew. if crew_id crew = i then Some Completed else crew_status crew) (crews s)"
proof -
  have "crews (runCrew_fulfilled i response t_completed t_updated s) =
      map_index_from 0 (\<lambda>k crew. if crew_id crew = i
              then crew\<lparr> crew_status := Some Completed,
                         crew_result := Some (rr_result response),
                         crew_completedAt := Some (t_completed k),
                         crew_duration := Some (rr_duration response),
                         crew_updatedAt := t_updated k \<rparr>
              else crew) (crews s)"
    by (simp add: runCrew_fulfilled_def map_index_def)
  then show ?thesis by (simp only:) (rule map_map_index_from_if, simp)
qed

lemma runCrew_rejected_statuses:
  "map crew_status (crews (runCrew_rejected i t_failed s))
     = map (\<lambda>crew. if crew_id crew = i then Some Failed else crew_status crew) (crews s)"
proof -
  have "crews (runCrew_rejected i t_failed s) =
      map_index_from 0 (\<lambda>k crew. if crew_id crew = i
              then crew\<lparr> crew_status := Some Failed, crew_updatedAt := t_failed k \<rparr>
              else crew) (crews s)"
    by (simp add: runCrew_rejected_def map_index_def)
  then show ?thesis by (simp only:) (rule map_map_index_from_if, simp)
qed

subsection \<open>A run that nothing comes in between\<close>

lemma runCrew_rejects:
  assumes "api_run i = Inl e"
  shows "runCrew api_run i t_run t_end t_end' s = (Inr (), runCrew_rejected i t_end (runCrew_begin i t_run s))"
  using assms by (simp add: runCrew_def)

lemma runCrew_failed_crews:
  "crews (runCrew_rejected i t_end (runCrew_begin i t_run s)) =
     map_index (\<lambda>k crew. if crew_id crew = i
                  then crew\<lparr> crew_status := Some Failed, crew_updatedAt := t_end k \<rparr>
                  else crew) (crews s)"
proof -
  have "crews (runCrew_rejected i t_end (runCrew_begin i t_run s)) =
      map_index_from 0 (\<lambda>k crew. if crew_id crew = i
                  then crew\<lparr> crew_status := Some Failed, crew_updatedAt := t_end k \<rparr>
                  else crew)
        (map_index_from 0 (\<lambda>k crew. if crew_id crew = i
                  then crew\<lparr> crew_status := Some Running, crew_updatedAt := t_run k \<rparr>
                  else crew) (crews s))"
    by (simp add: runCrew_rejected_def runCrew_begin_crews map_index_def)
  also have "\<dots> = map_index_from 0 (\<lambda>k crew. if crew_id crew = i
        then crew\<lparr> crew_status := Some Failed, crew_updatedAt := t_end k \<rparr>
        else crew) (crews s)"
    by (rule map_index_from_if_twice) simp_all
  finally show ?thesis by (simp add: map_index_def)
qed

lemma runCrew_completed_crews:
  "crews (runCrew_fulfilled i response t_end t_end' (runCrew_begin i t_run s)) =
     map_index (\<lambda>k crew. if crew_id crew = i
                  then crew\<lparr> crew_status := Some Completed,
                             crew_result := Some (rr_result response),
                             crew_completedAt := Some (t_end k),
                             crew_duration := Some (rr_duration response),
                             crew_updatedAt := t_end' k \<rparr>
                  else crew) (crews s)"
proof -
  have "crews (runCrew_fulfilled i response t_end t_end' (runCrew_begin i t_run s)) =
      map_index_from 0 (\<lambda>k crew. if crew_id crew = i
                  then crew\<lparr> crew_status := Some Completed,
                             crew_result := Some (rr_result response),
                             crew_completedAt := Some (t_end k),
                             crew_duration := Some (rr_duration response),
                             crew_updatedAt := t_end' k \<rparr>
                  else crew)
        (map_index_from 0 (\<lambda>k crew. if crew_id crew = i
                  then crew\<lparr> crew_status := Some Running, crew_updatedAt := t_run k \<rparr>
                  else crew) (crews s))"
    by (simp add: runCrew_fulfilled_def runCrew_begin_crews map_index_def)
  also have "\<dots> = map_index_from 0 (\<lambda>k crew. if crew_id crew = i
        then crew\<lparr> crew_status := Some Completed,
                   crew_result := Some (rr_result response),
                   crew_completedAt := Some (t_end k),
                   crew_duration := Some (rr_duration response),
                   crew_updatedAt := t_end' k \<rparr>
        else crew) (crews s)"
    by (rule map_index_from_if_twice) simp_all
  finally show ?thesis by (simp add: map_index_def)
qed

lemma runCrew_failed_state:
  "runCrew_rejected i t_end (runCrew_begin i t_run s) =
     s\<lparr> crews := map_index (\<lambda>k crew. if crew_id crew = i
                      then crew\<lparr> crew_status := Some Failed, crew_updatedAt := t_end k \<rparr>
                      else crew) (crews s),
        error := Some ''Failed to run crew'',
        isLoading := False \<rparr>"
proof -
  have "runCrew_rejected i t_end (runCrew_begin i t_run s) =
      s\<lparr> crews := crews (runCrew_rejected i t_end (runCrew_begin i t_run s)),
         error := Some ''Failed to run crew'',
         isLoading := False \<rparr>"
    by (simp add: runCrew_rejected_def runCrew_begin_def)
  then show ?thesis by (simp only: runCrew_failed_crews)
qed


lemma runCrew_statuses:
  "map crew_status (crews (snd (runCrew api_run i t_run t_end t_end' s)))
     = map (\<lambda>crew. if crew_id crew = i
                    then (case api_run i of Inr response \<Rightarrow> Some Completed | Inl e \<Rightarrow> Some Failed)
                    else crew_status crew) (crews s)"
proof (cases "api_run i")
  case (Inl e)
  have "map crew_status (crews (runCrew_rejected i t_end (runCrew_begin i t_run s)))
      = map (\<lambda>crew. if crew_id crew = i then Some Failed else crew_status crew) (crews s)"
    unfolding runCrew_failed_crews map_index_def by (rule map_map_index_from_if) simp
  with Inl show ?thesis by (simp add: runCrew_def)
next
  case (Inr response)
  have "map crew_status (crews (runCrew_fulfilled i response t_end t_end' (runCrew_begin i t_run s)))
      = map (\<lambda>crew. if crew_id crew = i then Some Completed else crew_status crew) (crews s)"
    unfolding runCrew_completed_crews map_index_def by (rule map_map_index_from_if) simp
  with Inr show ?thesis by (simp add: runCrew_def)
qed

lemma runCrew_lengths:
  "length (crews (runCrew_begin i t_run s)) = length (crews s)"
  "length (crews (snd (runCrew api_run i t_run t_end t_end' s))) = length (crews s)"
  using arg_cong [OF runCrew_begin_statuses, where f = length, of i t_run s]
    arg_cong [OF runCrew_statuses, where f = length, of api_run i t_run t_end t_end' s]
  by simp_all

lemma runCrew_begin_status_at:
  assumes "k < length (crews s)"
  shows "crew_status (crews (runCrew_begin i t_run s) ! k)
           = (if crew_id (crews s ! k) = i then Some Running else crew_status (crews s ! k))"
proof -
  have "crew_status (crews (runCrew_begin i t_run s) ! k)
      = map crew_status (crews (runCrew_begin i t_run s)) ! k"
    using assms by (simp add: runCrew_lengths)
  also have "\<dots> = (if crew_id (crews s ! k) = i then Some Running else crew_status (crews s ! k))"
    unfolding runCrew_begin_statuses using assms by simp
  finally show ?thesis .
qed

lemma runCrew_status_at:
  assumes "k < length (crews s)"
  shows "crew_status (crews (snd (runCrew api_run i t_run t_end t_end' s)) ! k)
           = (if crew_id (crews s ! k) = i
              then (case api_run i of Inr response \<Rightarrow> Some Completed | Inl e \<Rightarrow> Some Failed)
              else crew_status (crews s ! k))"
proof -
  have "crew_status (crews (snd (runCrew api_run i t_run t_end t_end' s)) ! k)
      = map crew_status (crews (snd (runCrew api_run i t_run t_end t_end' s))) ! k"
    using assms by (simp add: runCrew_lengths)
  also have "\<dots> = (if crew_id (crews s ! k) = i
              then (case api_run i of Inr response \<Rightarrow> Some Completed | Inl e \<Rightarrow> Some Failed)
              else crew_status (crews s ! k))"
    unfolding runCrew_statuses using assms by simp
  finally show ?thesis .
qed

lemma example_run_fails:
  "snd (runCrew backend_down ''abc123'' at_10 at_20 at_30 example_store) =
     example_store\<lparr> crews := [example_crew\<lparr> crew_status := Some Failed, crew_updatedAt := 20 \<rparr>],
                    error := Some ''Failed to run crew'', isLoading := False \<rparr>"
  by (simp add: runCrew_def backend_down_def runCrew_failed_state map_index_def example_store_def
        example_crew_def at_20_def)

text \<open>
  C5, as the spec states it, fails: besides the status and the store's error message, the
  failure branch rewrites \<open>updatedAt\<close> of the targeted crew and clears the store's loading
  flag (here while a createCrew is still waiting for its answer).
\<close>

theorem runCrew_failure_writes_more:
  "map crew_status (crews (snd (runCrew backend_down ''abc123'' at_10 at_20 at_30 example_store)))
     = [Some Failed]
   \<and> map crew_updatedAt (crews example_store) = [1]
   \<and> map crew_updatedAt (crews (snd (runCrew backend_down ''abc123'' at_10 at_20 at_30 example_store)))
     = [20]
   \<and> isLoading (createCrew_begin example_store) = True
   \<and> isLoading (snd (runCrew backend_down ''abc123'' at_10 at_20 at_30 (createCrew_begin example_store)))
     = False"
proof -
  have a: "map crew_status (crews (snd (runCrew backend_down ''abc123'' at_10 at_20 at_30 example_store)))
     = [Some Failed]"
    "map crew_updatedAt (crews (snd (runCrew backend_down ''abc123'' at_10 at_20 at_30 example_store)))
     = [20]"
    by (simp_all add: example_run_fails)
  have b: "map crew_updatedAt (crews example_store) = [1]"
    by (simp add: example_store_def example_crew_def)
  have c: "isLoading (createCrew_begin example_store) = True"
    by (simp add: createCrew_begin_def)
  have d: "isLoading (snd (runCrew backend_down ''abc123'' at_10 at_20 at_30 (createCrew_begin example_store)))
     = False"
    by (simp add: runCrew_def backend_down_def runCrew_failed_state)
  from a b c d show ?thesis by (intro conjI)
qed

text \<open>
  C5, amended. When the backend call of a runCrew that nothing comes in between fails,
  the call resolves and the store is the one before the call except for this: every crew
  with the targeted identifier has status failed and \<open>updatedAt\<close> rewritten by the clock,
  the store's error is the failure message, and the loading flag is cleared. So result,
  completion time and duration of every crew are as before, and so are the crews with
  another identifier, the agents and the vocabularies.
\<close>

theorem runCrew_failure_frame:
  assumes "api_run i = Inl e"
  shows "runCrew api_run i t_run t_end t_end' s =
           (Inr (),
            s\<lparr> crews := map_index (\<lambda>k crew. if crew_id crew = i
                             then crew\<lparr> crew_status := Some Failed, crew_updatedAt := t_end k \<rparr>
                             else crew) (crews s),
               error := Some ''Failed to run crew'',
               isLoading := False \<rparr>)
       \<and> map crew_result (crews (snd (runCrew api_run i t_run t_end t_end' s))) = map crew_result (crews s)
       \<and> map crew_completedAt (crews (snd (runCrew api_run i t_run t_end t_end' s)))
            = map crew_completedAt (crews s)
       \<and> map crew_duration (crews (snd (runCrew api_run i t_run t_end t_end' s)))
            = map crew_duration (crews s)
       \<and> map crew_status (crews (snd (runCrew api_run i t_run t_end t_end' s)))
            = map (\<lambda>crew. if crew_id crew = i then Some Failed else crew_status crew) (crews s)"
proof -
  have run: "runCrew api_run i t_run t_end t_end' s =
      (Inr (), runCrew_rejected i t_end (runCrew_begin i t_run s))"
    using assms by (rule runCrew_rejects)
  have cs: "crews (snd (runCrew api_run i t_run t_end t_end' s)) =
      map_index_from 0 (\<lambda>k crew. if crew_id crew = i
                  then crew\<lparr> crew_status := Some Failed, crew_updatedAt := t_end k \<rparr>
                  else crew) (crews s)"
    by (simp add: run runCrew_failed_crews map_index_def)
  have a: "runCrew api_run i t_run t_end t_end' s =
           (Inr (),
            s\<lparr> crews := map_index (\<lambda>k crew. if crew_id crew = i
                             then crew\<lparr> crew_status := Some Failed, crew_updatedAt := t_end k \<rparr>
                             else crew) (crews s),
               error := Some ''Failed to run crew'',
               isLoading := False \<rparr>)"
    by (simp only: run runCrew_failed_state)
  have b: "map crew_result (crews (snd (runCrew api_run i t_run t_end t_end' s))) = map crew_result (crews s)"
    unfolding cs by (rule map_map_index_from_frame) simp
  have c: "map crew_completedAt (crews (snd (runCrew api_run i t_run t_end t_end' s)))
            = map crew_completedAt (crews s)"
    unfolding cs by (rule map_map_index_from_frame) simp
  have d: "map crew_duration (crews (snd (runCrew api_run i t_run t_end t_end' s)))
            = map crew_duration (crews s)"
    unfolding cs by (rule map_map_index_from_frame) simp
  have f: "map crew_status (crews (snd (runCrew api_run i t_run t_end t_end' s)))
            = map (\<lambda>crew. if crew_id crew = i then Some Failed else crew_status crew) (crews s)"
    unfolding cs by (rule map_map_index_from_if) simp
  from a b c d f show ?thesis by (intro conjI)
qed

theorem runCrew_failure_frame_witness:
  "backend_down ''abc123'' = (Inl (TransportError 503 ''unavailable'') :: fault + CrewRunResponse)
   \<and> runCrew backend_down ''abc123'' at_10 at_20 at_30 example_store =
       (Inr (),
        example_store\<lparr> crews := [example_crew\<lparr> crew_status := Some Failed, crew_updatedAt := 20 \<rparr>],
                       error := Some ''Failed to run crew'', isLoading := False \<rparr>)
   \<and> map crew_result (crews (snd (runCrew backend_down ''abc123'' at_10 at_20 at_30 example_store))) = [None]"
proof -
  have h: "backend_down ''abc123'' = (Inl (TransportError 503 ''unavailable'') :: fault + CrewRunResponse)"
    by (simp add: backend_down_def)
  show ?thesis
    using h runCrew_failure_frame [of backend_down "''abc123''" "TransportError 503 ''unavailable''"
        at_10 at_20 at_30 example_store]
    by (simp add: map_index_def example_store_def example_crew_def at_20_def)
qed

lemma local_crew_overwritten:
  "(local_crew uuid t_created t_updated crewData)\<lparr> crew_id := apiCrewId \<rparr>
     = local_crew apiCrewId t_created t_updated crewData"
  by (simp add: local_crew_def)

lemma local_crew_fields:
  "crew_id (local_crew i t_created t_updated crewData) = i"
  "crew_status (local_crew i t_created t_updated crewData) = Some Idle"
  by (simp_all add: local_crew_def)


lemma createCrew_rejects:
  "api_create (apiCrewData (agents s) crewData) = Inl e \<Longrightarrow>
   createCrew api_create uuid t_created t_updated crewData s =
     (Inl e, s\<lparr> error := Some ''Failed to create crew'', isLoading := False \<rparr>)"
  by (simp add: createCrew_def createCrew_begin_def createCrew_rejected_def Let_def)

lemma createCrew_crews:
  "crews (snd (createCrew api_create uuid t_created t_updated crewData s)) =
     (case api_create (apiCrewData (agents s) crewData) of
        Inr apiCrewId \<Rightarrow> crews s @ [local_crew apiCrewId t_created t_updated crewData]
      | Inl e \<Rightarrow> crews s)"
  by (simp add: createCrew_def createCrew_begin_def createCrew_fulfilled_def createCrew_rejected_def
        Let_def local_crew_overwritten split: sum.splits)






lemma runCrew_resolves: "fst (runCrew api_run i t_run t_end t_end' s) = Inr ()"
  by (simp add: runCrew_def Let_def split: sum.splits)

lemma fetchTemplates_resolves: "fst (fetchTemplates api_templates s) = Inr ()"
  by (simp add: fetchTemplates_def Let_def split: sum.splits)

lemma fetchTemplates_rejected:
  "api_templates () = Inl e \<Longrightarrow>
   snd (fetchTemplates api_templates s) =
     s\<lparr> error := Some ''Failed to fetch agent templates'', isLoading := False \<rparr>"
  by (simp add: fetchTemplates_def Let_def)

lemma runCrew_failed_statuses:
  "api_run i = Inl e \<Longrightarrow>
   map crew_status (crews (snd (runCrew api_run i t_run t_end t_end' s)))
     = map (\<lambda>crew. if crew_id crew = i then Some Failed else crew_status crew) (crews s)"
  by (simp add: runCrew_statuses)

lemma runCrew_failed_error:
  "api_run i = Inl e \<Longrightarrow> error (snd (runCrew api_run i t_run t_end t_end' s)) = Some ''Failed to run crew''"
  by (simp add: runCrew_rejects runCrew_rejected_def)

text \<open>
  C9, as the spec states it, fails for createCrew: its catch block records the error and
  then rethrows, so the fault reaches the caller.
\<close>

theorem createCrew_rethrows:
  "fst (createCrew backend_down ''local-1'' 1 1 example_draft example_store)
     = Inl (TransportError 503 ''unavailable'')
   \<and> error (snd (createCrew backend_down ''local-1'' 1 1 example_draft example_store))
     = Some ''Failed to create crew''"
  by (simp add: createCrew_rejects backend_down_def)

text \<open>
  C9, amended. runCrew and fetchTemplates always resolve: a network failure becomes the
  store's error message and, for runCrew, status failed on the targeted crew. createCrew
  records the error message as well, and passes the fault on to its caller.
\<close>

theorem network_failures_contained:
  "fst (runCrew api_run i t_run t_end t_end' s) = Inr ()
   \<and> fst (fetchTemplates api_templates s) = Inr ()
   \<and> (api_run i = Inl e \<longrightarrow>
        error (snd (runCrew api_run i t_run t_end t_end' s)) = Some ''Failed to run crew''
      \<and> map crew_status (crews (snd (runCrew api_run i t_run t_end t_end' s)))
          = map (\<lambda>crew. if crew_id crew = i then Some Failed else crew_status crew) (crews s))
   \<and> (api_templates () = Inl e' \<longrightarrow>
        snd (fetchTemplates api_templates s) =
          s\<lparr> error := Some ''Failed to fetch agent templates'', isLoading := False \<rparr>)
   \<and> (api_create (apiCrewData (agents s) crewData) = Inl e'' \<longrightarrow>
        createCrew api_create uuid t_created t_updated crewData s =
          (Inl e'', s\<lparr> error := Some ''Failed to create crew'', isLoading := False \<rparr>))"
proof (intro conjI impI)
  show "fst (runCrew api_run i t_run t_end t_end' s) = Inr ()"
    by (rule runCrew_resolves)
  show "fst (fetchTemplates api_templates s) = Inr ()"
    by (rule fetchTemplates_resolves)
next
  assume h: "api_run i = Inl e"
  from h show "error (snd (runCrew api_run i t_run t_end t_end' s)) = Some ''Failed to run crew''"
    by (simp add: runCrew_failed_error)
  from h show "map crew_status (crews (snd (runCrew api_run i t_run t_end t_end' s)))
          = map (\<lambda>crew. if crew_id crew = i then Some Failed else crew_status crew) (crews s)"
    by (simp add: runCrew_failed_statuses)
next
  assume "api_templates () = Inl e'"
  then show "snd (fetchTemplates api_templates s) =
          s\<lparr> error := Some ''Failed to fetch agent templates'', isLoading := False \<rparr>"
    by (simp add: fetchTemplates_rejected)
next
  assume "api_create (apiCrewData (agents s) crewData) = Inl e''"
  then show "createCrew api_create uuid t_created t_updated crewData s =
          (Inl e'', s\<lparr> error := Some ''Failed to create crew'', isLoading := False \<rparr>)"
    by (simp add: createCrew_rejects)
qed

theorem network_failures_contained_witness:
  "backend_down ''abc123'' = (Inl (TransportError 503 ''unavailable'') :: fault + CrewRunResponse)
   \<and> templates_down () = Inl (TransportError 503 ''unavailable'')
   \<and> fst (runCrew backend_down ''abc123'' at_10 at_20 at_30 example_store) = Inr ()
   \<and> error (snd (runCrew backend_down ''abc123'' at_10 at_20 at_30 example_store)) = Some ''Failed to run crew''
   \<and> map crew_status (crews (snd (runCrew backend_down ''abc123'' at_10 at_20 at_30 example_store))) = [Some Failed]
   \<and> fst (fetchTemplates templates_down example_store) = Inr ()
   \<and> error (snd (fetchTemplates templates_down example_store)) = Some ''Failed to fetch agent templates''
   \<and> fst (createCrew backend_down ''local-1'' 1 1 example_draft example_store)
       = Inl (TransportError 503 ''unavailable'')"
  using network_failures_contained [where api_run = backend_down and i = "''abc123''"
      and t_run = at_10 and t_end = at_20 and t_end' = at_30 and s = example_store
      and api_templates = templates_down and e = "TransportError 503 ''unavailable''"
      and e' = "TransportError 503 ''unavailable''" and api_create = backend_down
      and uuid = "''local-1''" and t_created = 1 and t_updated = 1 and crewData = example_draft
      and e'' = "TransportError 503 ''unavailable''"]
  by (simp add: backend_down_def templates_down_def example_store_def example_crew_def)



lemma updateCrew_statuses:
  "map crew_status (crews (updateCrew i updates now s))
     = map (\<lambda>crew. if crew_id crew = i then patch_field (up_status updates) (crew_status crew)
                    else crew_status crew) (crews s)"
proof -
  have "crews (updateCrew i updates now s) =
      map_index_from 0 (\<lambda>k crew. if crew_id crew = i then apply_updates updates (now k) crew else crew)
        (crews s)"
    by (simp add: updateCrew_def map_index_def)
  then show ?thesis
    by (simp only:) (rule map_map_index_from_if, simp add: apply_updates_def)
qed

text \<open>
  C1, as the spec states it, fails for updateCrew: a patch may carry a status, and it is
  written whatever the crew's status was. Here an idle crew becomes completed in one step.
\<close>

theorem updateCrew_jumps_to_completed:
  "map crew_status (crews example_store) = [Some Idle]
   \<and> map crew_status (crews (updateCrew ''abc123'' mark_completed at_10 example_store))
       = [Some Completed]
   \<and> \<not> status_transition (Some Idle) (Some Completed)"
  by (simp add: updateCrew_statuses example_store_def example_crew_def mark_completed_def
        patch_field_def status_transition_def)

text \<open>
  C1, amended. Each step of runCrew tests the identifier only, on the crews the store
  holds when the step runs: the first step writes running on every crew with the
  identifier, the continuation writes completed (after a failure: failed) on every crew
  with the identifier, whatever their status is then. In a runCrew that no other
  operation comes in between, a targeted crew is therefore running while the call is
  under way and completed or failed when it has settled, so its status changes idle to
  running, completed or failed to running, running to completed or running to failed (a
  crew found running, or with no status, is running as well); other crews keep their
  status. createCrew leaves the crews already in the list as they are and adds an idle
  one. updateCrew writes the status its patch carries, absent status included, and
  leaves every status alone when the patch has no status key.
\<close>

theorem crew_status_lifecycle:
  "map crew_status (crews (runCrew_begin i t_run s))
     = map (\<lambda>crew. if crew_id crew = i then Some Running else crew_status crew) (crews s)
   \<and> map crew_status (crews (runCrew_fulfilled i response t_done t_done' s))
     = map (\<lambda>crew. if crew_id crew = i then Some Completed else crew_status crew) (crews s)
   \<and> map crew_status (crews (runCrew_rejected i t_failed s))
     = map (\<lambda>crew. if crew_id crew = i then Some Failed else crew_status crew) (crews s)
   \<and> length (crews (snd (runCrew api_run i t_run t_end t_end' s))) = length (crews s)
   \<and> (\<forall>k < length (crews s).
      let before = crew_status (crews s ! k);
          during = crew_status (crews (runCrew_begin i t_run s) ! k);
          after = crew_status (crews (snd (runCrew api_run i t_run t_end t_end' s)) ! k)
      in if crew_id (crews s ! k) = i
         then during = Some Running
            \<and> (before = None \<or> before = Some Running \<or> status_transition before during)
            \<and> (after = Some Completed \<or> after = Some Failed) \<and> status_transition during after
         else during = before \<and> after = before)
   \<and> (\<forall>k < length (crews s).
         crews (snd (createCrew api_create uuid t_created t_updated crewData s)) ! k = crews s ! k)
   \<and> (\<forall>k < length (crews (snd (createCrew api_create uuid t_created t_updated crewData s))).
         length (crews s) \<le> k \<longrightarrow>
         crew_status (crews (snd (createCrew api_create uuid t_created t_updated crewData s)) ! k)
           = Some Idle)
   \<and> map crew_status (crews (updateCrew i updates now s))
        = map (\<lambda>crew. if crew_id crew = i then patch_field (up_status updates) (crew_status crew)
                       else crew_status crew) (crews s)
   \<and> (up_status updates = None \<longrightarrow>
        map crew_status (crews (updateCrew i updates now s)) = map crew_status (crews s))"
proof (intro conjI)
  show "map crew_status (crews (runCrew_begin i t_run s))
     = map (\<lambda>crew. if crew_id crew = i then Some Running else crew_status crew) (crews s)"
    by (rule runCrew_begin_statuses)
  show "map crew_status (crews (runCrew_fulfilled i response t_done t_done' s))
     = map (\<lambda>crew. if crew_id crew = i then Some Completed else crew_status crew) (crews s)"
    by (rule runCrew_fulfilled_statuses)
  show "map crew_status (crews (runCrew_rejected i t_failed s))
     = map (\<lambda>crew. if crew_id crew = i then Some Failed else crew_status crew) (crews s)"
    by (rule runCrew_rejected_statuses)
  show "length (crews (snd (runCrew api_run i t_run t_end t_end' s))) = length (crews s)"
    by (rule runCrew_lengths)
next
  show "\<forall>k < length (crews s).
      let before = crew_status (crews s ! k);
          during = crew_status (crews (runCrew_begin i t_run s) ! k);
          after = crew_status (crews (snd (runCrew api_run i t_run t_end t_end' s)) ! k)
      in if crew_id (crews s ! k) = i
         then during = Some Running
            \<and> (before = None \<or> before = Some Running \<or> status_transition before during)
            \<and> (after = Some Completed \<or> after = Some Failed) \<and> status_transition during after
         else during = before \<and> after = before"
  proof (intro allI impI)
    fix k assume k: "k < length (crews s)"
    have before: "crew_status (crews s ! k) = None
        \<or> crew_status (crews s ! k) = Some Running
        \<or> status_transition (crew_status (crews s ! k)) (Some Running)"
    proof (cases "crew_status (crews s ! k)")
      case None
      then show ?thesis by simp
    next
      case (Some st)
      then show ?thesis by (cases st) (simp_all add: status_transition_def)
    qed
    have after: "status_transition (Some Running)
        (case api_run i of Inr response \<Rightarrow> Some Completed | Inl e \<Rightarrow> Some Failed)"
      by (cases "api_run i") (simp_all add: status_transition_def)
    have ends: "(case api_run i of Inr response \<Rightarrow> Some Completed | Inl e \<Rightarrow> Some Failed) = Some Completed
        \<or> (case api_run i of Inr response \<Rightarrow> Some Completed | Inl e \<Rightarrow> Some Failed) = Some Failed"
      by (cases "api_run i") simp_all
    show "let before = crew_status (crews s ! k);
          during = crew_status (crews (runCrew_begin i t_run s) ! k);
          after = crew_status (crews (snd (runCrew api_run i t_run t_end t_end' s)) ! k)
      in if crew_id (crews s ! k) = i
         then during = Some Running
            \<and> (before = None \<or> before = Some Running \<or> status_transition before during)
            \<and> (after = Some Completed \<or> after = Some Failed) \<and> status_transition during after
         else during = before \<and> after = before"
      unfolding runCrew_begin_status_at [OF k] runCrew_status_at [OF k] Let_def
      using before after ends by simp
  qed
next
  show "\<forall>k < length (crews s).
         crews (snd (createCrew api_create uuid t_created t_updated crewData s)) ! k = crews s ! k"
    by (simp add: createCrew_crews nth_append split: sum.splits)
next
  show "\<forall>k < length (crews (snd (createCrew api_create uuid t_created t_updated crewData s))).
         length (crews s) \<le> k \<longrightarrow>
         crew_status (crews (snd (createCrew api_create uuid t_created t_updated crewData s)) ! k)
           = Some Idle"
    by (auto simp add: createCrew_crews nth_append local_crew_fields less_Suc_eq split: sum.splits)
next
  show "map crew_status (crews (updateCrew i updates now s))
        = map (\<lambda>crew. if crew_id crew = i then patch_field (up_status updates) (crew_status crew)
                       else crew_status crew) (crews s)"
    by (rule updateCrew_statuses)
next
  show "up_status updates = None \<longrightarrow>
        map crew_status (crews (updateCrew i updates now s)) = map crew_status (crews s)"
    by (simp add: updateCrew_statuses patch_field_def)
qed

theorem crew_status_lifecycle_witness:
  "map crew_status (crews example_store) = [Some Idle]
   \<and> map crew_status (crews (runCrew_begin ''abc123'' at_10 example_store)) = [Some Running]
   \<and> map crew_status (crews (snd (runCrew backend_done ''abc123'' at_10 at_20 at_30 example_store)))
       = [Some Completed]
   \<and> status_transition (Some Idle) (Some Running)
   \<and> status_transition (Some Running) (Some Completed)
   \<and> map crew_status (crews (snd (createCrew backend_abc123 ''local-2'' 2 2 example_draft example_store)))
        = [Some Idle, Some Idle]
   \<and> up_status (mark_completed\<lparr> up_status := None \<rparr>) = None
   \<and> map crew_status (crews (updateCrew ''abc123'' (mark_completed\<lparr> up_status := None \<rparr>) at_10 example_store))
        = [Some Idle]
   \<and> map crew_status (crews (updateCrew ''abc123'' (mark_completed\<lparr> up_status := Some None \<rparr>) at_10
        example_store)) = [None]"
  using crew_status_lifecycle [where s = example_store and i = "''abc123''" and t_run = at_10
      and api_run = backend_done and t_end = at_20 and t_end' = at_30 and api_create = backend_abc123
      and uuid = "''local-2''" and t_created = 2 and t_updated = 2 and crewData = example_draft
      and updates = "mark_completed\<lparr> up_status := None \<rparr>" and now = at_10]
  by (simp add: runCrew_begin_statuses runCrew_statuses createCrew_crews updateCrew_statuses
        example_store_def example_crew_def backend_done_def backend_abc123_def
        status_transition_def local_crew_fields patch_field_def mark_completed_def)

text \<open>
  What the restriction to a run that nothing comes in between excludes. When the same
  crew is run twice and the first call is answered before the second fails, the crew
  goes from completed to failed. When a crew is created under the identifier of a crew
  whose run is under way, the answer to that run completes the new crew as well, which
  was idle.
\<close>

lemma overlapping_runs:
  "map crew_status (crews
      (runCrew_fulfilled ''abc123'' (report ''abc123'') at_20 at_20
        (runCrew_begin ''abc123'' at_10 (runCrew_begin ''abc123'' at_10 example_store))))
     = [Some Completed]
   \<and> map crew_status (crews
      (runCrew_rejected ''abc123'' at_30
        (runCrew_fulfilled ''abc123'' (report ''abc123'') at_20 at_20
          (runCrew_begin ''abc123'' at_10 (runCrew_begin ''abc123'' at_10 example_store)))))
     = [Some Failed]
   \<and> \<not> status_transition (Some Completed) (Some Failed)"
  by (simp add: runCrew_begin_def runCrew_fulfilled_def runCrew_rejected_def map_index_def
        example_store_def example_crew_def status_transition_def)

lemma crew_created_during_run:
  "map crew_status (crews
      (snd (createCrew backend_abc123 ''local-2'' 2 2 example_draft
        (runCrew_begin ''abc123'' at_10 example_store))))
     = [Some Running, Some Idle]
   \<and> map crew_status (crews
      (runCrew_fulfilled ''abc123'' (report ''abc123'') at_20 at_20
        (snd (createCrew backend_abc123 ''local-2'' 2 2 example_draft
          (runCrew_begin ''abc123'' at_10 example_store)))))
     = [Some Completed, Some Completed]
   \<and> \<not> status_transition (Some Idle) (Some Completed)"
  by (simp add: runCrew_begin_def runCrew_fulfilled_def createCrew_def createCrew_begin_def
        createCrew_fulfilled_def map_index_def backend_abc123_def local_crew_def
        example_store_def example_crew_def status_transition_def)

section \<open>Properties of the conversation store\<close>

lemma busy_chat_conversations:
  "conversations busy_chat =
     [ \<lparr> conv_id = ''c3'', conv_title = ''third'', conv_messages = [], conv_createdAt = 4,
          conv_updatedAt = 4, conv_systemPrompt = None \<rparr>,
       \<lparr> conv_id = ''c2'', conv_title = ''second'', conv_messages = [], conv_createdAt = 2,
          conv_updatedAt = 2, conv_systemPrompt = None \<rparr>,
       \<lparr> conv_id = ''c1'', conv_title = ''first'', conv_messages = [hello], conv_createdAt = 1,
          conv_updatedAt = 3, conv_systemPrompt = None \<rparr> ]"
  by (simp add: busy_chat_def createConversation_def addMessage_def setActiveConversation_def
        truthy_def empty_chat_def)

lemma busy_chat_active: "activeConversationId busy_chat = Some ''c3''"
  by (simp add: busy_chat_def createConversation_def)

text \<open>
  C10. With an active conversation, updateMessage and deleteMessage called with an
  identifier that no message of that conversation carries leave every message as it is,
  and still write the clock into the active conversation's \<open>conv_updatedAt\<close>: the state
  changes although no message does.
\<close>

theorem stale_identifier_bumps_updatedAt:
  assumes active: "truthy (activeConversationId s) = Some a"
    and stale: "\<forall>conv \<in> set (conversations s). conv_id conv = a \<longrightarrow> i \<notin> msg_id ` set (conv_messages conv)"
  shows "updateMessage i content now s =
           s\<lparr> conversations := map (\<lambda>conv. if conv_id conv = a then conv\<lparr> conv_updatedAt := now \<rparr> else conv)
                                   (conversations s) \<rparr>
       \<and> deleteMessage i now s =
           s\<lparr> conversations := map (\<lambda>conv. if conv_id conv = a then conv\<lparr> conv_updatedAt := now \<rparr> else conv)
                                   (conversations s) \<rparr>"
proof -
  have upd: "map (\<lambda>msg. if msg_id msg = i then msg\<lparr> msg_content := content \<rparr> else msg) (conv_messages conv)
               = conv_messages conv"
    if "conv \<in> set (conversations s)" "conv_id conv = a" for conv
  proof (rule map_if_none)
    fix msg assume "msg \<in> set (conv_messages conv)"
    with stale that show "msg_id msg \<noteq> i" by blast
  qed
  have del: "filter (\<lambda>msg. msg_id msg \<noteq> i) (conv_messages conv) = conv_messages conv"
    if "conv \<in> set (conversations s)" "conv_id conv = a" for conv
  proof (rule filter_none)
    fix msg assume "msg \<in> set (conv_messages conv)"
    with stale that show "msg_id msg \<noteq> i" by blast
  qed
  have u: "map (\<lambda>conv. if conv_id conv = a
                 then conv\<lparr> conv_messages :=
                        map (\<lambda>msg. if msg_id msg = i then msg\<lparr> msg_content := content \<rparr> else msg)
                          (conv_messages conv),
                      conv_updatedAt := now \<rparr>
                 else conv) (conversations s)
       = map (\<lambda>conv. if conv_id conv = a then conv\<lparr> conv_updatedAt := now \<rparr> else conv) (conversations s)"
  proof (rule map_cong [OF refl])
    fix conv assume "conv \<in> set (conversations s)"
    then show "(if conv_id conv = a
                 then conv\<lparr> conv_messages :=
                        map (\<lambda>msg. if msg_id msg = i then msg\<lparr> msg_content := content \<rparr> else msg)
                          (conv_messages conv),
                      conv_updatedAt := now \<rparr>
                 else conv) = (if conv_id conv = a then conv\<lparr> conv_updatedAt := now \<rparr> else conv)"
      by (simp add: upd)
  qed
  have d: "map (\<lambda>conv. if conv_id conv = a
                 then conv\<lparr> conv_messages := filter (\<lambda>msg. msg_id msg \<noteq> i) (conv_messages conv),
                      conv_updatedAt := now \<rparr>
                 else conv) (conversations s)
       = map (\<lambda>conv. if conv_id conv = a then conv\<lparr> conv_updatedAt := now \<rparr> else conv) (conversations s)"
  proof (rule map_cong [OF refl])
    fix conv assume "conv \<in> set (conversations s)"
    then show "(if conv_id conv = a
                 then conv\<lparr> conv_messages := filter (\<lambda>msg. msg_id msg \<noteq> i) (conv_messages conv),
                      conv_updatedAt := now \<rparr>
                 else conv) = (if conv_id conv = a then conv\<lparr> conv_updatedAt := now \<rparr> else conv)"
      by (simp add: del)
  qed
  have "updateMessage i content now s =
           s\<lparr> conversations := map (\<lambda>conv. if conv_id conv = a then conv\<lparr> conv_updatedAt := now \<rparr> else conv)
                                   (conversations s) \<rparr>"
    unfolding updateMessage_def active by (simp only: option.case u)
  moreover have "deleteMessage i now s =
           s\<lparr> conversations := map (\<lambda>conv. if conv_id conv = a then conv\<lparr> conv_updatedAt := now \<rparr> else conv)
                                   (conversations s) \<rparr>"
    unfolding deleteMessage_def active by (simp only: option.case d)
  ultimately show ?thesis by (rule conjI)
qed

theorem stale_identifier_bumps_updatedAt_witness:
  "truthy (activeConversationId (setActiveConversation ''c1'' busy_chat)) = Some ''c1''
   \<and> map (map msg_id \<circ> conv_messages) (conversations (setActiveConversation ''c1'' busy_chat))
        = [[], [], [''m1'']]
   \<and> map conv_messages (conversations (updateMessage ''gone'' ''late'' 9 (setActiveConversation ''c1'' busy_chat)))
        = [[], [], [hello]]
   \<and> map conv_updatedAt (conversations (updateMessage ''gone'' ''late'' 9 (setActiveConversation ''c1'' busy_chat)))
        = [4, 2, 9]
   \<and> map conv_updatedAt (conversations (deleteMessage ''gone'' 9 (setActiveConversation ''c1'' busy_chat)))
        = [4, 2, 9]
   \<and> map conv_updatedAt (conversations (setActiveConversation ''c1'' busy_chat)) = [4, 2, 3]"
proof -
  let ?s = "setActiveConversation ''c1'' busy_chat"
  have a: "truthy (activeConversationId ?s) = Some ''c1''"
    by (simp add: setActiveConversation_def truthy_def)
  have c: "conversations ?s = conversations busy_chat"
    by (simp add: setActiveConversation_def)
  have b: "\<forall>conv \<in> set (conversations ?s). conv_id conv = ''c1'' \<longrightarrow> ''gone'' \<notin> msg_id ` set (conv_messages conv)"
    by (simp add: c busy_chat_conversations hello_def)
  show ?thesis
    using a stale_identifier_bumps_updatedAt [OF a b, of "''late''" 9]
    by (simp add: c busy_chat_conversations hello_def)
qed

text \<open>
  C6, as the spec states it, fails: after deleting the active conversation \<open>c3\<close> the store
  selects \<open>c2\<close>, the first of the remaining list, although \<open>c1\<close> was updated later.
\<close>

theorem deleteConversation_not_most_recent:
  "activeConversationId busy_chat = Some ''c3''
   \<and> map conv_id (conversations (deleteConversation ''c3'' busy_chat)) = [''c2'', ''c1'']
   \<and> map conv_updatedAt (conversations (deleteConversation ''c3'' busy_chat)) = [2, 3]
   \<and> activeConversationId (deleteConversation ''c3'' busy_chat) = Some ''c2''
   \<and> \<not> most_recently_updated (conversations (deleteConversation ''c3'' busy_chat)) ''c2''
   \<and> most_recently_updated (conversations (deleteConversation ''c3'' busy_chat)) ''c1''"
  by (simp add: deleteConversation_def busy_chat_conversations busy_chat_active
        most_recently_updated_def)

text \<open>
  C6, amended. deleteConversation removes every conversation with the identifier. If it
  was the active one, the new active conversation is the first one left in list order
  (the list is newest-created first and is not reordered by updates), and none when the
  list is left empty; if it was not the active one, the selection stays as it was.
\<close>

theorem deleteConversation_selects_first:
  "conversations (deleteConversation i s) = filter (\<lambda>conv. conv_id conv \<noteq> i) (conversations s)
   \<and> (activeConversationId s = Some i \<longrightarrow>
        activeConversationId (deleteConversation i s)
          = map_option conv_id (find (\<lambda>conv. conv_id conv \<noteq> i) (conversations s)))
   \<and> (activeConversationId s = Some i \<longrightarrow>
        (\<forall>conv rest. conversations (deleteConversation i s) = conv # rest \<longrightarrow>
           activeConversationId (deleteConversation i s) = Some (conv_id conv)))
   \<and> (activeConversationId s = Some i \<longrightarrow> conversations (deleteConversation i s) = [] \<longrightarrow>
        activeConversationId (deleteConversation i s) = None)
   \<and> (activeConversationId s \<noteq> Some i \<longrightarrow>
        activeConversationId (deleteConversation i s) = activeConversationId s)"
proof -
  let ?rest = "filter (\<lambda>conv. conv_id conv \<noteq> i) (conversations s)"
  have cs: "conversations (deleteConversation i s) = ?rest"
    by (simp add: deleteConversation_def Let_def)
  have act: "activeConversationId (deleteConversation i s) =
      (if activeConversationId s = Some i
       then (case ?rest of [] \<Rightarrow> None | conv # _ \<Rightarrow> Some (conv_id conv))
       else activeConversationId s)"
    by (simp add: deleteConversation_def Let_def)
  have a: "activeConversationId s = Some i \<longrightarrow>
        activeConversationId (deleteConversation i s)
          = map_option conv_id (find (\<lambda>conv. conv_id conv \<noteq> i) (conversations s))"
    by (simp add: act first_of_filter)
  have b: "activeConversationId s = Some i \<longrightarrow>
        (\<forall>conv rest. conversations (deleteConversation i s) = conv # rest \<longrightarrow>
           activeConversationId (deleteConversation i s) = Some (conv_id conv))"
    unfolding cs act by simp
  have c: "activeConversationId s = Some i \<longrightarrow> conversations (deleteConversation i s) = [] \<longrightarrow>
        activeConversationId (deleteConversation i s) = None"
    unfolding cs act by simp
  have d: "activeConversationId s \<noteq> Some i \<longrightarrow>
        activeConversationId (deleteConversation i s) = activeConversationId s"
    by (simp add: act)
  from cs a b c d show ?thesis by blast
qed

theorem deleteConversation_selects_first_witness:
  "activeConversationId busy_chat = Some ''c3''
   \<and> activeConversationId (deleteConversation ''c3'' busy_chat) = Some ''c2''
   \<and> activeConversationId (deleteConversation ''c1'' busy_chat) = Some ''c3''
   \<and> activeConversationId
        (deleteConversation ''c3'' (deleteConversation ''c2'' (deleteConversation ''c1'' busy_chat))) = None"
proof -
  let ?last = "deleteConversation ''c2'' (deleteConversation ''c1'' busy_chat)"
  have l: "activeConversationId ?last = Some ''c3''"
    "conversations ?last = [\<lparr> conv_id = ''c3'', conv_title = ''third'', conv_messages = [],
        conv_createdAt = 4, conv_updatedAt = 4, conv_systemPrompt = None \<rparr>]"
    by (simp_all add: deleteConversation_def busy_chat_conversations busy_chat_active)
  show ?thesis
    using deleteConversation_selects_first [of "''c3''" busy_chat]
      deleteConversation_selects_first [of "''c1''" busy_chat]
      deleteConversation_selects_first [of "''c3''" ?last] l
    by (simp add: busy_chat_conversations busy_chat_active)
qed

lemma history_messages_length:
  "length (history_messages parse clk history) = 2 * length history"
  by (simp add: history_messages_def map_index_def pairs_length map_index_from_length)

lemma history_messages_nth:
  assumes "k < length history"
  shows "history_messages parse clk history ! (2 * k) = history_user parse clk k (history ! k)"
    and "history_messages parse clk history ! (2 * k + 1) = history_assistant parse clk k (history ! k)"
proof -
  let ?us = "map_index_from 0 (history_user parse clk) history"
  have k: "k < length ?us" using assms by (simp add: map_index_from_length)
  have m: "history_messages parse clk history =
      concat (map_index_from 0
        (\<lambda>index userMsg. [userMsg, history_assistant parse clk index (history ! index)]) ?us)"
    by (simp add: history_messages_def map_index_def Let_def)
  have u: "?us ! k = history_user parse clk k (history ! k)"
    using map_index_from_nth [OF assms, of 0 "history_user parse clk"] by simp
  from pairs_nth [OF k, of 0 "\<lambda>i x. x" "\<lambda>i x. history_assistant parse clk i (history ! i)"]
  show "history_messages parse clk history ! (2 * k) = history_user parse clk k (history ! k)"
    and "history_messages parse clk history ! (2 * k + 1) = history_assistant parse clk k (history ! k)"
    by (simp_all add: m u)
qed

lemma loadConversationHistory_fulfils:
  "api_history conversationId = Inr history \<Longrightarrow>
   loadConversationHistory api_history conversationId parse clk now s =
     (Inr (), loadHistory_fulfilled conversationId parse clk history now (loadHistory_begin s))"
  by (simp add: loadConversationHistory_def)

lemma loadHistory_fulfilled_conversations:
  "conversations (loadHistory_fulfilled conversationId parse clk history now (loadHistory_begin s)) =
     map (\<lambda>conv. if conv_id conv = conversationId
                  then conv\<lparr> conv_messages := history_messages parse clk history,
                             conv_updatedAt := now \<rparr>
                  else conv) (conversations s)"
  by (simp add: loadHistory_fulfilled_def loadHistory_begin_def Let_def)

lemma example_history_timestamps:
  "map msg_timestamp
     (history_messages epoch_parser ticking_clock [untimed_turn, timed_turn, epoch_turn, undated_turn])
     = [Time 1000, Time 1002, Time 500, Time 501, Time 0, Time 1, NaN, NaN]"
  by (simp add: history_messages_def map_index_def history_user_def history_assistant_def
        turn_time_def time_clip_def parsed_def epoch_parser_def untimed_turn_def timed_turn_def
        epoch_turn_def undated_turn_def ticking_clock_def)

lemma example_history_contents:
  "map msg_content
     (history_messages epoch_parser ticking_clock [untimed_turn, timed_turn, epoch_turn, undated_turn])
     = [''a'', ''b'', ''c'', ''d'', ''e'', ''f'', ''g'', ''h'']"
  by (simp add: history_messages_def map_index_def history_user_def history_assistant_def
        untimed_turn_def timed_turn_def epoch_turn_def undated_turn_def)

text \<open>
  C7, as the spec states it, fails: for a turn without a timestamp in its metadata both
  messages read the clock, the user message during the first pass and the assistant
  message during the second. When the clock has moved from 1000 to 1001 in between, the
  assistant's timestamp is 1002, not 1001.
\<close>

theorem history_timestamps_apart:
  "map msg_role (history_messages epoch_parser ticking_clock [untimed_turn]) = [User, Assistant]
   \<and> msg_timestamp (history_messages epoch_parser ticking_clock [untimed_turn] ! 0) = Time 1000
   \<and> msg_timestamp (history_messages epoch_parser ticking_clock [untimed_turn] ! 1) = Time 1002
   \<and> msg_timestamp (history_messages epoch_parser ticking_clock [untimed_turn] ! 1)
        \<noteq> plus_one (msg_timestamp (history_messages epoch_parser ticking_clock [untimed_turn] ! 0))"
  by (simp add: history_messages_def map_index_def history_user_def history_assistant_def
        turn_time_def untimed_turn_def ticking_clock_def)

text \<open>
  C7, amended. A successful loadConversationHistory replaces the messages of every
  conversation with the given identifier by \<open>2n\<close> messages for a history of \<open>n\<close> turns:
  at positions \<open>2k\<close> and \<open>2k + 1\<close> the user and the assistant message of turn \<open>k\<close>, with
  the turn's texts. When the turn's raw metadata timestamp is truthy and denotes a valid
  date, the user's timestamp is that date's time and the assistant's is one more. When it
  is truthy and denotes no valid date, both timestamps are \<open>NaN\<close>. When it is falsy
  (missing, null, false, 0 or the empty string), the user's timestamp is the clock at the
  time the user message is built and the assistant's is one more than the clock at the
  time the assistant message is built.
\<close>

theorem loadConversationHistory_rebuilds:
  assumes "api_history conversationId = Inr history"
  shows "conversations (snd (loadConversationHistory api_history conversationId parse clk now s)) =
           map (\<lambda>conv. if conv_id conv = conversationId
                        then conv\<lparr> conv_messages := history_messages parse clk history,
                                   conv_updatedAt := now \<rparr>
                        else conv) (conversations s)
       \<and> length (history_messages parse clk history) = 2 * length history
       \<and> (\<forall>k < length history.
            let user = history_messages parse clk history ! (2 * k);
                assistant = history_messages parse clk history ! (2 * k + 1);
                raw = md_timestamp (hi_metadata (history ! k))
            in msg_role user = User \<and> msg_content user = hi_user (history ! k)
             \<and> msg_role assistant = Assistant \<and> msg_content assistant = hi_assistant (history ! k)
             \<and> (\<forall>t. \<not> falsy_timestamp raw \<and> date_getTime parse raw = Time t \<longrightarrow>
                   msg_timestamp user = Time t \<and> msg_timestamp assistant = Time (t + 1))
             \<and> (\<not> falsy_timestamp raw \<and> date_getTime parse raw = NaN \<longrightarrow>
                   msg_timestamp user = NaN \<and> msg_timestamp assistant = NaN)
             \<and> (falsy_timestamp raw \<longrightarrow>
                   msg_timestamp user = Time (now_user_time clk k)
                 \<and> msg_timestamp assistant = Time (now_assistant_time clk k + 1)))"
proof -
  have a: "conversations (snd (loadConversationHistory api_history conversationId parse clk now s)) =
           map (\<lambda>conv. if conv_id conv = conversationId
                        then conv\<lparr> conv_messages := history_messages parse clk history,
                                   conv_updatedAt := now \<rparr>
                        else conv) (conversations s)"
    using assms by (simp add: loadConversationHistory_fulfils loadHistory_fulfilled_conversations)
  have c: "let user = history_messages parse clk history ! (2 * k);
                assistant = history_messages parse clk history ! (2 * k + 1);
                raw = md_timestamp (hi_metadata (history ! k))
            in msg_role user = User \<and> msg_content user = hi_user (history ! k)
             \<and> msg_role assistant = Assistant \<and> msg_content assistant = hi_assistant (history ! k)
             \<and> (\<forall>t. \<not> falsy_timestamp raw \<and> date_getTime parse raw = Time t \<longrightarrow>
                   msg_timestamp user = Time t \<and> msg_timestamp assistant = Time (t + 1))
             \<and> (\<not> falsy_timestamp raw \<and> date_getTime parse raw = NaN \<longrightarrow>
                   msg_timestamp user = NaN \<and> msg_timestamp assistant = NaN)
             \<and> (falsy_timestamp raw \<longrightarrow>
                   msg_timestamp user = Time (now_user_time clk k)
                 \<and> msg_timestamp assistant = Time (now_assistant_time clk k + 1))"
    if "k < length history" for k
    unfolding Let_def history_messages_nth [OF that]
    by (simp add: history_user_def history_assistant_def turn_time_def)
  from a history_messages_length c show ?thesis by blast
qed

theorem loadConversationHistory_rebuilds_witness:
  "history_backend ''c1'' = Inr [untimed_turn, timed_turn, epoch_turn, undated_turn]
   \<and> map (map msg_content \<circ> conv_messages)
        (conversations (snd (loadConversationHistory history_backend ''c1'' epoch_parser
           ticking_clock 1002 busy_chat)))
      = [[], [], [''a'', ''b'', ''c'', ''d'', ''e'', ''f'', ''g'', ''h'']]
   \<and> map (map msg_timestamp \<circ> conv_messages)
        (conversations (snd (loadConversationHistory history_backend ''c1'' epoch_parser
           ticking_clock 1002 busy_chat)))
      = [[], [], [Time 1000, Time 1002, Time 500, Time 501, Time 0, Time 1, NaN, NaN]]
   \<and> map (falsy_timestamp \<circ> md_timestamp \<circ> hi_metadata) [untimed_turn, timed_turn, epoch_turn, undated_turn]
      = [True, False, False, False]
   \<and> map (date_getTime epoch_parser \<circ> md_timestamp \<circ> hi_metadata) [timed_turn, epoch_turn, undated_turn]
      = [Time 500, Time 0, NaN]"
proof -
  have h: "history_backend ''c1'' = Inr [untimed_turn, timed_turn, epoch_turn, undated_turn]"
    by (simp add: history_backend_def)
  have f: "map (falsy_timestamp \<circ> md_timestamp \<circ> hi_metadata) [untimed_turn, timed_turn, epoch_turn, undated_turn]
      = [True, False, False, False]"
    "map (date_getTime epoch_parser \<circ> md_timestamp \<circ> hi_metadata) [timed_turn, epoch_turn, undated_turn]
      = [Time 500, Time 0, NaN]"
    by (simp_all add: untimed_turn_def timed_turn_def epoch_turn_def undated_turn_def
          time_clip_def parsed_def epoch_parser_def)
  show ?thesis
    using h f loadConversationHistory_rebuilds [of history_backend "''c1''"
        "[untimed_turn, timed_turn, epoch_turn, undated_turn]" epoch_parser ticking_clock 1002 busy_chat]
    by (simp add: busy_chat_conversations example_history_contents example_history_timestamps)
qed

section \<open>Properties of the send-turn handler\<close>

lemma addMessage_active:
  "truthy (activeConversationId s) = Some a \<Longrightarrow>
   addMessage message now s =
     s\<lparr> conversations := map (\<lambda>conv. if conv_id conv = a
              then conv\<lparr> conv_messages := conv_messages conv @ [message], conv_updatedAt := now \<rparr>
              else conv) (conversations s) \<rparr>"
  by (simp add: addMessage_def)

lemma updateMessage_active:
  "truthy (activeConversationId s) = Some a \<Longrightarrow>
   updateMessage i content now s =
     s\<lparr> conversations := map (\<lambda>conv. if conv_id conv = a
              then conv\<lparr> conv_messages :=
                     map (\<lambda>msg. if msg_id msg = i then msg\<lparr> msg_content := content \<rparr> else msg)
                       (conv_messages conv),
                   conv_updatedAt := now \<rparr>
              else conv) (conversations s) \<rparr>"
  by (simp add: updateMessage_def)

lemma addMessage_keeps_active:
  "activeConversationId (addMessage message now s) = activeConversationId s"
  by (simp add: addMessage_def split: option.splits)

lemma send_begin_conversations:
  assumes "truthy (activeConversationId (store v)) = Some a"
  shows "conversations (store (send_begin rd content v)) =
     map (\<lambda>conv. if conv_id conv = a
            then conv\<lparr> conv_messages := conv_messages conv @ [userMessage rd content, assistantMessage rd],
                       conv_updatedAt := assistant_added rd \<rparr>
            else conv) (conversations (store v))"
    and "activeConversationId (store (send_begin rd content v)) = activeConversationId (store v)"
proof -
  let ?s1 = "addMessage (userMessage rd content) (user_added rd) (store v)"
  have s1: "?s1 = (store v)\<lparr> conversations := map (\<lambda>conv. if conv_id conv = a
              then conv\<lparr> conv_messages := conv_messages conv @ [userMessage rd content],
                         conv_updatedAt := user_added rd \<rparr>
              else conv) (conversations (store v)) \<rparr>"
    using assms by (rule addMessage_active)
  have a1: "truthy (activeConversationId ?s1) = Some a"
    using assms by (simp add: s1)
  have "conversations (store (send_begin rd content v)) =
      map (\<lambda>conv. if conv_id conv = a
              then conv\<lparr> conv_messages := conv_messages conv @ [assistantMessage rd],
                         conv_updatedAt := assistant_added rd \<rparr>
              else conv) (conversations ?s1)"
    by (simp add: send_begin_def addMessage_active [OF a1])
  also have "\<dots> = map (\<lambda>conv. if conv_id conv = a
              then conv\<lparr> conv_messages := conv_messages conv @ [assistantMessage rd],
                         conv_updatedAt := assistant_added rd \<rparr>
              else conv)
          (map (\<lambda>conv. if conv_id conv = a
              then conv\<lparr> conv_messages := conv_messages conv @ [userMessage rd content],
                         conv_updatedAt := user_added rd \<rparr>
              else conv) (conversations (store v)))"
    by (simp add: s1)
  also have "\<dots> = map (\<lambda>conv. if conv_id conv = a
              then (conv\<lparr> conv_messages := conv_messages conv @ [userMessage rd content],
                         conv_updatedAt := user_added rd \<rparr>)
                    \<lparr> conv_messages := conv_messages (conv\<lparr> conv_messages := conv_messages conv @ [userMessage rd content],
                         conv_updatedAt := user_added rd \<rparr>) @ [assistantMessage rd],
                         conv_updatedAt := assistant_added rd \<rparr>
              else conv) (conversations (store v))"
    by (rule map_if_twice) simp
  finally show "conversations (store (send_begin rd content v)) =
     map (\<lambda>conv. if conv_id conv = a
            then conv\<lparr> conv_messages := conv_messages conv @ [userMessage rd content, assistantMessage rd],
                       conv_updatedAt := assistant_added rd \<rparr>
            else conv) (conversations (store v))"
    by simp
  show "activeConversationId (store (send_begin rd content v)) = activeConversationId (store v)"
    by (simp add: send_begin_def addMessage_keeps_active)
qed

lemma handleSendMessage_reconciles:
  assumes active: "truthy (activeConversationId (store v)) = Some a"
  shows "conversations (store (handleSendMessage api_chat modelSettings rd content v)) =
     map (\<lambda>conv. if conv_id conv = a
            then conv\<lparr> conv_messages :=
                   map (\<lambda>msg. if msg_id msg = assistant_uuid rd
                               then msg\<lparr> msg_content :=
                                      (case api_chat (chat_request modelSettings (store v) a content) of
                                         Inr response \<Rightarrow> resp_text response
                                       | Inl e \<Rightarrow> failure_notice) \<rparr>
                               else msg)
                     (conv_messages conv @ [userMessage rd content, assistantMessage rd]),
                 conv_updatedAt := updated_now rd \<rparr>
            else conv) (conversations (store v))"
proof -
  let ?final = "case api_chat (chat_request modelSettings (store v) a content) of
                  Inr response \<Rightarrow> resp_text response | Inl e \<Rightarrow> failure_notice"
  let ?v1 = "send_begin rd content v"
  have a1: "truthy (activeConversationId (store ?v1)) = Some a"
    using active by (simp add: send_begin_conversations(2) [OF active])
  have "store (handleSendMessage api_chat modelSettings rd content v)
      = updateMessage (assistant_uuid rd) ?final (updated_now rd) (store ?v1)"
    using active
    by (simp add: handleSendMessage_def send_fulfilled_def send_rejected_def Let_def
          split: sum.splits)
  then have "conversations (store (handleSendMessage api_chat modelSettings rd content v)) =
      map (\<lambda>conv. if conv_id conv = a
              then conv\<lparr> conv_messages :=
                     map (\<lambda>msg. if msg_id msg = assistant_uuid rd then msg\<lparr> msg_content := ?final \<rparr> else msg)
                       (conv_messages conv),
                   conv_updatedAt := updated_now rd \<rparr>
              else conv)
        (map (\<lambda>conv. if conv_id conv = a
            then conv\<lparr> conv_messages := conv_messages conv @ [userMessage rd content, assistantMessage rd],
                       conv_updatedAt := assistant_added rd \<rparr>
            else conv) (conversations (store v)))"
    by (simp add: updateMessage_active [OF a1] send_begin_conversations(1) [OF active])
  also have "\<dots> = map (\<lambda>conv. if conv_id conv = a
              then (conv\<lparr> conv_messages := conv_messages conv @ [userMessage rd content, assistantMessage rd],
                       conv_updatedAt := assistant_added rd \<rparr>)
                   \<lparr> conv_messages :=
                     map (\<lambda>msg. if msg_id msg = assistant_uuid rd then msg\<lparr> msg_content := ?final \<rparr> else msg)
                       (conv_messages (conv\<lparr> conv_messages := conv_messages conv @ [userMessage rd content, assistantMessage rd],
                       conv_updatedAt := assistant_added rd \<rparr>)),
                   conv_updatedAt := updated_now rd \<rparr>
              else conv) (conversations (store v))"
    by (rule map_if_twice) simp
  finally show ?thesis by simp
qed

lemma fresh_view_store:
  "store fresh_view =
     \<lparr> conversations = [\<lparr> conv_id = ''c1'', conv_title = ''New Conversation'', conv_messages = [],
                           conv_createdAt = 1, conv_updatedAt = 1, conv_systemPrompt = None \<rparr>],
       activeConversationId = Some ''c1'', chat_isLoading = False, chat_error = None \<rparr>"
  by (simp add: fresh_view_def createConversation_def setActiveConversation_def empty_chat_def)

text \<open>
  C2, for a submission that nothing comes in between, holds except for the provenance:
  the handler builds \<open>updatedAssistantMessage\<close> with
  the model, provider, token count and cost of the response, and then calls
  \<open>updateMessage\<close> with the identifier and the text alone. In a fresh session, after
  "hello" is answered by "hi there", the conversation holds the user message and the
  placeholder in that order, the placeholder has kept its identifier and carries exactly
  the returned text, and none of its provenance fields is set.
\<close>

theorem handleSendMessage_drops_provenance:
  "map (map msg_id \<circ> conv_messages)
     (conversations (store (handleSendMessage chat_backend default_settings example_readings ''hello'' fresh_view)))
     = [[''u1'', ''a1'']]
   \<and> map (map msg_content \<circ> conv_messages)
     (conversations (store (handleSendMessage chat_backend default_settings example_readings ''hello'' fresh_view)))
     = [[''hello'', ''hi there'']]
   \<and> map (map msg_model \<circ> conv_messages)
     (conversations (store (handleSendMessage chat_backend default_settings example_readings ''hello'' fresh_view)))
     = [[None, None]]
   \<and> map (map msg_provider \<circ> conv_messages)
     (conversations (store (handleSendMessage chat_backend default_settings example_readings ''hello'' fresh_view)))
     = [[None, None]]
   \<and> map (map msg_tokens \<circ> conv_messages)
     (conversations (store (handleSendMessage chat_backend default_settings example_readings ''hello'' fresh_view)))
     = [[None, None]]
   \<and> map (map msg_cost \<circ> conv_messages)
     (conversations (store (handleSendMessage chat_backend default_settings example_readings ''hello'' fresh_view)))
     = [[None, None]]
   \<and> msg_model (updatedAssistantMessage example_readings hi_there) = Some ''qwen2.5-72b''
   \<and> msg_provider (updatedAssistantMessage example_readings hi_there) = Some ''local''
   \<and> msg_tokens (updatedAssistantMessage example_readings hi_there) = Some 12
   \<and> msg_cost (updatedAssistantMessage example_readings hi_there) = Some 0"
proof -
  have a: "truthy (activeConversationId (store fresh_view)) = Some ''c1''"
    by (simp add: fresh_view_store truthy_def)
  show ?thesis
    by (simp add: handleSendMessage_reconciles [OF a] fresh_view_store chat_backend_def hi_there_def
          userMessage_def assistantMessage_def updatedAssistantMessage_def example_readings_def)
qed

section \<open>Properties of the push-channel client\<close>

lemma sendMessage_handlers:
  "messageHandlers (fst (sendMessage request onResponse messageId c))
     = map_set messageId onResponse (messageHandlers c)"
  by (simp add: sendMessage_def connect_def Let_def split: option.splits)

lemma sendMessage_calls_nothing: "snd (sendMessage request onResponse messageId c) = []"
  by (simp add: sendMessage_def connect_def Let_def split: option.splits)

lemma handleMessage_member:
  "(k, h) \<in> set (messageHandlers c) \<Longrightarrow> (h, response) \<in> set (handleMessage c response)"
  by (force simp add: handleMessage_def)

lemma two_pending_value:
  "two_pending = \<lparr> socket = Some [(example_request, ''m1''), (example_request, ''m2'')],
       clientId = ''client-1'', messageHandlers = [(''m1'', ''onFirst''), (''m2'', ''onSecond'')] \<rparr>"
  by (simp add: two_pending_def sendMessage_def connect_def idle_client_def Let_def)

text \<open>
  C3, as the spec states it, fails: with two requests outstanding, a message that echoes
  the first request's identifier is handed to both handlers, where the spec's dispatch
  hands it to the first only.
\<close>

theorem reply_reaches_every_handler:
  "map fst (messageHandlers two_pending) = [''m1'', ''m2'']
   \<and> ws_message_id (reply (Some ''m1'') ''hi there'') = Some ''m1''
   \<and> handleMessage two_pending (reply (Some ''m1'') ''hi there'')
        = [(''onFirst'', reply (Some ''m1'') ''hi there''), (''onSecond'', reply (Some ''m1'') ''hi there'')]
   \<and> spec_dispatch two_pending (reply (Some ''m1'') ''hi there'')
        = [(''onFirst'', reply (Some ''m1'') ''hi there'')]
   \<and> handleMessage two_pending (reply (Some ''m1'') ''hi there'')
        \<noteq> spec_dispatch two_pending (reply (Some ''m1'') ''hi there'')"
  by (simp add: two_pending_value handleMessage_def spec_dispatch_def reply_def)

text \<open>
  C3, amended. handleMessage hands every incoming message to every registered handler,
  once per entry and in registration order, whatever identifier the message carries: the
  handler that sendMessage has just registered receives it, and so does every handler
  registered earlier under another identifier.
\<close>

theorem handleMessage_broadcasts:
  "map fst (handleMessage c response) = map snd (messageHandlers c)
   \<and> map snd (handleMessage c response) = replicate (length (messageHandlers c)) response
   \<and> map fst (handleMessage c (response\<lparr> ws_message_id := m \<rparr>)) = map fst (handleMessage c response)
   \<and> (onResponse, response)
        \<in> set (handleMessage (fst (sendMessage request onResponse messageId c)) response)
   \<and> (\<forall>k h. (k, h) \<in> set (messageHandlers c) \<and> k \<noteq> messageId \<longrightarrow>
        (h, response) \<in> set (handleMessage (fst (sendMessage request onResponse messageId c)) response))"
proof (intro conjI allI impI)
  show "map fst (handleMessage c response) = map snd (messageHandlers c)"
    by (induction "messageHandlers c" arbitrary: c) (auto simp add: handleMessage_def)
  show "map snd (handleMessage c response) = replicate (length (messageHandlers c)) response"
    by (simp add: handleMessage_def map_replicate_const [symmetric] case_prod_beta comp_def)
  show "map fst (handleMessage c (response\<lparr> ws_message_id := m \<rparr>)) = map fst (handleMessage c response)"
    by (simp add: handleMessage_def case_prod_beta comp_def)
  show "(onResponse, response)
        \<in> set (handleMessage (fst (sendMessage request onResponse messageId c)) response)"
    by (rule handleMessage_member [where k = messageId])
       (simp add: sendMessage_handlers map_set_keeps_new)
next
  fix k h
  assume "(k, h) \<in> set (messageHandlers c) \<and> k \<noteq> messageId"
  then have "(k, h) \<in> set (messageHandlers (fst (sendMessage request onResponse messageId c)))"
    by (simp add: sendMessage_handlers map_set_keeps_others)
  then show "(h, response) \<in> set (handleMessage (fst (sendMessage request onResponse messageId c)) response)"
    by (rule handleMessage_member)
qed

theorem handleMessage_broadcasts_witness:
  "(''m1'', ''onFirst'') \<in> set (messageHandlers (fst (sendMessage example_request ''onFirst'' ''m1'' idle_client)))
   \<and> ''m1'' \<noteq> ''m2''
   \<and> ws_message_id (reply (Some ''m2'') ''late'') = Some ''m2''
   \<and> (''onFirst'', reply (Some ''m2'') ''late'') \<in> set (handleMessage two_pending (reply (Some ''m2'') ''late''))
   \<and> (''onSecond'', reply (Some ''m2'') ''late'') \<in> set (handleMessage two_pending (reply (Some ''m2'') ''late''))
   \<and> map fst (handleMessage two_pending (reply (Some ''m2'') ''late'')) = [''onFirst'', ''onSecond'']"
proof -
  let ?c = "fst (sendMessage example_request ''onFirst'' ''m1'' idle_client)"
  have h: "messageHandlers ?c = [(''m1'', ''onFirst'')]"
    by (simp add: sendMessage_handlers idle_client_def)
  show ?thesis
    using handleMessage_broadcasts [of ?c "reply (Some ''m2'') ''late''" "Some ''m2''"
        "''onSecond''" example_request "''m2''"]
      handleMessage_broadcasts [of two_pending "reply (Some ''m2'') ''late''" "Some ''m2''"
        "''onSecond''" example_request "''m2''"]
    by (simp add: h two_pending_def [symmetric] two_pending_value reply_def)
qed

lemma gateway_step_keys:
  "fst ` set (messageHandlers (fst st)) \<subseteq> fst ` set (messageHandlers (fst (gateway_step event st)))"
proof (cases st)
  case (Pair c calls)
  show ?thesis
  proof (cases event)
    case Connect
    with Pair show ?thesis by (simp add: connect_def split: option.splits)
  next
    case Disconnect
    with Pair show ?thesis by (simp add: disconnect_def split: option.splits)
  next
    case (Send request onResponse messageId)
    have "fst (gateway_step (Send request onResponse messageId) (c, calls))
        = fst (sendMessage request onResponse messageId c)"
      by (simp add: case_prod_beta)
    with Pair Send show ?thesis
      by (simp add: sendMessage_handlers map_set_keys subset_insertI)
  next
    case (Incoming response)
    with Pair show ?thesis by (simp split: option.splits)
  qed
qed

lemma gateway_run_keys:
  "fst ` set (messageHandlers (fst st)) \<subseteq> fst ` set (messageHandlers (fst (gateway_run events st)))"
proof (induction events arbitrary: st)
  case Nil
  show ?case by (simp add: gateway_run_def)
next
  case (Cons event events)
  from gateway_step_keys [of st event] Cons.IH [of "gateway_step event st"]
  have "fst ` set (messageHandlers (fst st))
      \<subseteq> fst ` set (messageHandlers (fst (gateway_run events (gateway_step event st))))"
    by (rule subset_trans)
  then show ?case by (simp add: gateway_run_def)
qed

text \<open>
  C8, as the spec states it, fails: the handler registered for \<open>m1\<close> is called with the
  response to its request, is still registered afterwards, and is called again with the
  next incoming message.
\<close>

theorem handler_survives_its_response:
  "gateway_run [Send example_request ''onFirst'' ''m1'',
                Incoming (reply (Some ''m1'') ''hi there''),
                Incoming (reply (Some ''m2'') ''for another request'')] (idle_client, [])
   = (\<lparr> socket = Some [(example_request, ''m1'')], clientId = ''client-1'',
        messageHandlers = [(''m1'', ''onFirst'')] \<rparr>,
      [(''onFirst'', reply (Some ''m1'') ''hi there''),
       (''onFirst'', reply (Some ''m2'') ''for another request'')])"
  by (simp add: gateway_run_def sendMessage_def connect_def idle_client_def handleMessage_def Let_def)

text \<open>
  C8, amended. No operation of the client removes an entry of \<open>messageHandlers\<close>: an
  identifier registered by sendMessage stays registered through every later connect,
  disconnect, sendMessage and incoming message, and while a socket is open each incoming
  message calls every registered handler again and leaves the client unchanged.
\<close>

theorem pending_entries_persist:
  "fst ` set (messageHandlers c) \<subseteq> fst ` set (messageHandlers (fst (gateway_run events (c, calls))))
   \<and> messageId \<in> fst ` set (messageHandlers
        (fst (gateway_run events (gateway_step (Send request onResponse messageId) (c, calls)))))
   \<and> (socket c \<noteq> None \<longrightarrow>
        fst (gateway_step (Incoming response) (c, calls)) = c
      \<and> snd (gateway_step (Incoming response) (c, calls)) = calls @ handleMessage c response
      \<and> map fst (handleMessage c response) = map snd (messageHandlers c))"
proof (intro conjI impI)
  show "fst ` set (messageHandlers c) \<subseteq> fst ` set (messageHandlers (fst (gateway_run events (c, calls))))"
    using gateway_run_keys [of "(c, calls)" events] by simp
  have "messageId \<in> fst ` set (messageHandlers (fst (gateway_step (Send request onResponse messageId) (c, calls))))"
    by (simp add: case_prod_beta sendMessage_handlers map_set_keys)
  with gateway_run_keys [of "gateway_step (Send request onResponse messageId) (c, calls)" events]
  show "messageId \<in> fst ` set (messageHandlers
        (fst (gateway_run events (gateway_step (Send request onResponse messageId) (c, calls)))))"
    by blast
next
  assume "socket c \<noteq> None"
  then obtain frames where s: "socket c = Some frames" by blast
  show "fst (gateway_step (Incoming response) (c, calls)) = c"
    using s by simp
  show "snd (gateway_step (Incoming response) (c, calls)) = calls @ handleMessage c response"
    using s by simp
  show "map fst (handleMessage c response) = map snd (messageHandlers c)"
    by (simp add: handleMessage_def case_prod_beta comp_def)
qed

theorem pending_entries_persist_witness:
  "socket two_pending \<noteq> None
   \<and> fst ` set (messageHandlers two_pending) = {''m1'', ''m2''}
   \<and> fst ` set (messageHandlers (fst (gateway_run
        [Incoming (reply (Some ''m1'') ''hi there''), Disconnect, Connect] (two_pending, []))))
      = {''m1'', ''m2''}
   \<and> snd (gateway_step (Incoming (reply (Some ''m1'') ''hi there'')) (two_pending, []))
      = [(''onFirst'', reply (Some ''m1'') ''hi there''), (''onSecond'', reply (Some ''m1'') ''hi there'')]"
  using pending_entries_persist [of two_pending
      "[Incoming (reply (Some ''m1'') ''hi there''), Disconnect, Connect]" "[]"
      "''m1''" example_request "''onFirst''" "reply (Some ''m1'') ''hi there''"]
  by (simp add: two_pending_value gateway_run_def handleMessage_def connect_def disconnect_def
        insert_commute)

end
